theory Spec2Isabelle
  imports Main "HOL-Library.Word"
begin

unbundle bit_operations_syntax

section \<open>Request parameters\<close>

text \<open>
  A parameter destructured from \<^verbatim>\<open>req.body\<close> is either absent (\<^verbatim>\<open>undefined\<close>) or a
  string. The handlers test parameters with \<^verbatim>\<open>!p\<close>, which holds for an absent and for
  an empty string.

  A JavaScript string is a sequence of UTF-16 code units. The code verifier is hashed,
  so its code units matter and it is modelled as such a sequence. The other parameters
  are only compared and looked up; they are modelled as character lists, equal exactly
  when the JavaScript strings are. \<open>ascii\<close> is the JavaScript string of an ASCII literal.
\<close>

type_synonym jsstring = "16 word list"

definition ascii :: "string \<Rightarrow> jsstring" where
  "ascii s = map of_char s"

definition falsy :: "'a list option \<Rightarrow> bool" where
  "falsy p = (case p of None \<Rightarrow> True | Some v \<Rightarrow> v = [])"

record body =
  grant_type :: "string option"
  client_id :: "string option"
  code :: "string option"
  code_verifier :: "jsstring option"
  redirect_uri :: "string option"
  resource :: "string option"
  refresh_token :: "string option"

text \<open>\<^verbatim>\<open>Array.prototype.join\<close>: the elements separated by the separator, nothing around them.\<close>

fun join :: "string \<Rightarrow> string list \<Rightarrow> string" where
  "join sep [] = []"
| "join sep [x] = x"
| "join sep (x # y # ys) = x @ sep @ join sep (y # ys)"

section \<open>SHA-256 and base64url, as used for PKCE\<close>

text \<open>
  The challenge of a verifier is computed in \<^verbatim>\<open>tests/e2e/auth/helpers/crypto.ts\<close> with
  \<^verbatim>\<open>createHash('sha256').update(codeVerifier).digest()\<close> followed by
  \<^verbatim>\<open>base64UrlEncode\<close>. The hash is the library's SHA-256 (FIPS 180-4), written out here
  on 32-bit words so that it can be evaluated. \<^verbatim>\<open>update\<close> hashes the UTF-8 encoding of
  the string it is given.
\<close>

type_synonym w32 = "32 word"
type_synonym byte = "8 word"
type_synonym state256 = "w32 \<times> w32 \<times> w32 \<times> w32 \<times> w32 \<times> w32 \<times> w32 \<times> w32"

definition rotr :: "nat \<Rightarrow> w32 \<Rightarrow> w32" where
  "rotr n x = word_rotr n x"

definition ch :: "w32 \<Rightarrow> w32 \<Rightarrow> w32 \<Rightarrow> w32" where
  "ch x y z = (x AND y) XOR (NOT x AND z)"

definition maj :: "w32 \<Rightarrow> w32 \<Rightarrow> w32 \<Rightarrow> w32" where
  "maj x y z = (x AND y) XOR (x AND z) XOR (y AND z)"

definition bsig0 :: "w32 \<Rightarrow> w32" where
  "bsig0 x = rotr 2 x XOR rotr 13 x XOR rotr 22 x"

definition bsig1 :: "w32 \<Rightarrow> w32" where
  "bsig1 x = rotr 6 x XOR rotr 11 x XOR rotr 25 x"

definition ssig0 :: "w32 \<Rightarrow> w32" where
  "ssig0 x = rotr 7 x XOR rotr 18 x XOR drop_bit 3 x"

definition ssig1 :: "w32 \<Rightarrow> w32" where
  "ssig1 x = rotr 17 x XOR rotr 19 x XOR drop_bit 10 x"

text \<open>The round constants, eight to a row.\<close>

definition K256 :: "w32 list" where
  "K256 = concat [
    [0x428a2f98, 0x71374491, 0xb5c0fbcf, 0xe9b5dba5, 0x3956c25b, 0x59f111f1, 0x923f82a4, 0xab1c5ed5],
    [0xd807aa98, 0x12835b01, 0x243185be, 0x550c7dc3, 0x72be5d74, 0x80deb1fe, 0x9bdc06a7, 0xc19bf174],
    [0xe49b69c1, 0xefbe4786, 0x0fc19dc6, 0x240ca1cc, 0x2de92c6f, 0x4a7484aa, 0x5cb0a9dc, 0x76f988da],
    [0x983e5152, 0xa831c66d, 0xb00327c8, 0xbf597fc7, 0xc6e00bf3, 0xd5a79147, 0x06ca6351, 0x14292967],
    [0x27b70a85, 0x2e1b2138, 0x4d2c6dfc, 0x53380d13, 0x650a7354, 0x766a0abb, 0x81c2c92e, 0x92722c85],
    [0xa2bfe8a1, 0xa81a664b, 0xc24b8b70, 0xc76c51a3, 0xd192e819, 0xd6990624, 0xf40e3585, 0x106aa070],
    [0x19a4c116, 0x1e376c08, 0x2748774c, 0x34b0bcb5, 0x391c0cb3, 0x4ed8aa4a, 0x5b9cca4f, 0x682e6ff3],
    [0x748f82ee, 0x78a5636f, 0x84c87814, 0x8cc70208, 0x90befffa, 0xa4506ceb, 0xbef9a3f7, 0xc67178f2]]"

definition H256 :: state256 where
  "H256 = (0x6a09e667, 0xbb67ae85, 0x3c6ef372, 0xa54ff53a,
           0x510e527f, 0x9b05688c, 0x1f83d9ab, 0x5be0cd19)"

text \<open>
  Padding: the byte 0x80, zero bytes up to 56 modulo 64, then the length of the message
  in bits as 64 bits, most significant byte first.
\<close>

definition be_bytes64 :: "64 word \<Rightarrow> byte list" where
  "be_bytes64 n = map (\<lambda>i. ucast (drop_bit (8 * (7 - i)) n)) [0..<8]"

definition pad :: "byte list \<Rightarrow> byte list" where
  "pad m = m @ [0x80] @ replicate ((119 - length m mod 64) mod 64) 0
             @ be_bytes64 (of_nat (8 * length m))"

fun be_word :: "byte list \<Rightarrow> w32" where
  "be_word [] = 0"
| "be_word (b # bs) = push_bit (8 * length bs) (ucast b) + be_word bs"

fun words_of :: "byte list \<Rightarrow> w32 list" where
  "words_of (a # b # c # d # rest) = be_word [a, b, c, d] # words_of rest"
| "words_of _ = []"

text \<open>The message schedule: the 16 words of a block, extended to 64 words.\<close>

fun schedule :: "nat \<Rightarrow> w32 list \<Rightarrow> w32 list" where
  "schedule 0 w = w"
| "schedule (Suc n) w =
     (let t = length w in
      schedule n (w @ [ssig1 (w ! (t - 2)) + w ! (t - 7) + ssig0 (w ! (t - 15)) + w ! (t - 16)]))"

fun round256 :: "state256 \<Rightarrow> w32 \<times> w32 \<Rightarrow> state256" where
  "round256 (a, b, c, d, e, f, g, h) (k, w) =
     (let t1 = h + bsig1 e + ch e f g + k + w;
          t2 = bsig0 a + maj a b c
      in (t1 + t2, a, b, c, d + t1, e, f, g))"

fun add256 :: "state256 \<Rightarrow> state256 \<Rightarrow> state256" where
  "add256 (a, b, c, d, e, f, g, h) (a', b', c', d', e', f', g', h') =
     (a + a', b + b', c + c', d + d', e + e', f + f', g + g', h + h')"

definition compress :: "state256 \<Rightarrow> w32 list \<Rightarrow> state256" where
  "compress h block = add256 h (foldl round256 h (zip K256 (schedule 48 block)))"

fun blocks :: "nat \<Rightarrow> state256 \<Rightarrow> w32 list \<Rightarrow> state256" where
  "blocks 0 h ws = h"
| "blocks (Suc n) h ws = blocks n (compress h (take 16 ws)) (drop 16 ws)"

definition sha256_state :: "byte list \<Rightarrow> state256" where
  "sha256_state m = (let ws = words_of (pad m) in blocks (length ws div 16) H256 ws)"

definition word_bytes :: "w32 \<Rightarrow> byte list" where
  "word_bytes w = map (\<lambda>i. ucast (drop_bit (8 * (3 - i)) w)) [0..<4]"

fun state_bytes :: "state256 \<Rightarrow> byte list" where
  "state_bytes (a, b, c, d, e, f, g, h) = concat (map word_bytes [a, b, c, d, e, f, g, h])"

definition sha256 :: "byte list \<Rightarrow> byte list" where
  "sha256 m = state_bytes (sha256_state m)"

text \<open>
  The UTF-8 encoding of a JavaScript string, as \<^verbatim>\<open>update\<close> and \<^verbatim>\<open>Buffer.from\<close> compute it:
  one to three bytes for a code unit that is no surrogate, four bytes for a high
  surrogate followed by a low one, and the three bytes of U+FFFD in place of a surrogate
  that stands alone.
\<close>

definition replacement :: "byte list" where
  "replacement = [0xEF, 0xBF, 0xBD]"

definition utf8_pair :: "16 word \<Rightarrow> 16 word \<Rightarrow> byte list" where
  "utf8_pair hi lo =
     (let cp = 0x10000 + push_bit 10 (ucast hi - 0xD800) + (ucast lo - 0xDC00) :: 32 word
      in [0xF0 OR ucast (drop_bit 18 cp),
          0x80 OR (ucast (drop_bit 12 cp) AND 0x3F),
          0x80 OR (ucast (drop_bit 6 cp) AND 0x3F),
          0x80 OR (ucast cp AND 0x3F)])"

fun utf8 :: "jsstring \<Rightarrow> byte list" where
  "utf8 [] = []"
| "utf8 (u # us) =
     (if u < 0x80 then ucast u # utf8 us
      else if u < 0x800 then
        [0xC0 OR ucast (drop_bit 6 u), 0x80 OR (ucast u AND 0x3F)] @ utf8 us
      else if 0xD800 \<le> u \<and> u < 0xDC00 then
        (case us of
           [] \<Rightarrow> replacement
         | l # rest \<Rightarrow>
             if 0xDC00 \<le> l \<and> l < 0xE000 then utf8_pair u l @ utf8 rest
             else replacement @ utf8 us)
      else if 0xDC00 \<le> u \<and> u < 0xE000 then replacement @ utf8 us
      else
        [0xE0 OR ucast (drop_bit 12 u),
         0x80 OR (ucast (drop_bit 6 u) AND 0x3F),
         0x80 OR (ucast u AND 0x3F)] @ utf8 us)"

text \<open>
  \<^verbatim>\<open>Buffer.from(buffer).toString('base64')\<close>: three bytes give four digits of the
  standard alphabet; a last group of one or two bytes is padded with \<^verbatim>\<open>=\<close>.
\<close>

definition b64_alphabet :: string where
  "b64_alphabet = ''ABCDEFGHIJKLMNOPQRSTUVWXYZabcdefghijklmnopqrstuvwxyz0123456789+/''"

definition b64_digit :: "nat \<Rightarrow> char" where
  "b64_digit n = b64_alphabet ! n"

fun base64 :: "byte list \<Rightarrow> string" where
  "base64 (a # b # c # rest) =
     [b64_digit (unat a div 4),
      b64_digit (unat a mod 4 * 16 + unat b div 16),
      b64_digit (unat b mod 16 * 4 + unat c div 64),
      b64_digit (unat c mod 64)] @ base64 rest"
| "base64 [a, b] =
     [b64_digit (unat a div 4),
      b64_digit (unat a mod 4 * 16 + unat b div 16),
      b64_digit (unat b mod 16 * 4),
      CHR ''='']"
| "base64 [a] =
     [b64_digit (unat a div 4),
      b64_digit (unat a mod 4 * 16),
      CHR ''='', CHR ''='']"
| "base64 [] = []"

text \<open>\<^verbatim>\<open>s.replace(/c/g, d)\<close> for a single character \<^verbatim>\<open>c\<close>.\<close>

definition replace_all :: "char \<Rightarrow> string \<Rightarrow> string \<Rightarrow> string" where
  "replace_all c d s = concat (map (\<lambda>x. if x = c then d else [x]) s)"

definition base64UrlEncode :: "byte list \<Rightarrow> string" where
  "base64UrlEncode buffer =
     replace_all (CHR ''='') [] (replace_all (CHR ''/'') ''_'' (replace_all (CHR ''+'') ''-''
       (base64 buffer)))"

definition generateCodeChallenge :: "jsstring \<Rightarrow> string" where
  "generateCodeChallenge codeVerifier = base64UrlEncode (sha256 (utf8 codeVerifier))"

text \<open>
  Modelled from the spec: \<^verbatim>\<open>validatePKCE\<close> of \<^verbatim>\<open>src/server/oauth/storage.ts\<close>, which is not
  among the sources. The spec: compute a fixed one-way hash of the verifier, base64url-encode
  it without padding, and compare it for equality with the challenge. The hash is SHA-256,
  the only method the server accepts (S256) and the one the test helper above uses.
\<close>

definition validatePKCE :: "jsstring \<Rightarrow> string \<Rightarrow> bool" where
  "validatePKCE codeVerifier codeChallenge =
     (base64UrlEncode (sha256 (utf8 codeVerifier)) = codeChallenge)"

text \<open>
  Base64url without padding, written directly: the digit of a sextet in the alphabet
  that has \<^verbatim>\<open>-\<close> and \<^verbatim>\<open>_\<close> for \<^verbatim>\<open>+\<close> and \<^verbatim>\<open>/\<close>, and no \<^verbatim>\<open>=\<close> after the last
  group. \<open>base64UrlEncode\<close>, which goes through the padded encoding and three
  replacements as the helper does, is shown below to compute the same string.
\<close>

definition url_digit :: "nat \<Rightarrow> char" where
  "url_digit n =
     (if b64_digit n = CHR ''+'' then CHR ''-''
      else if b64_digit n = CHR ''/'' then CHR ''_'' else b64_digit n)"

fun b64url :: "byte list \<Rightarrow> string" where
  "b64url (a # b # c # rest) =
     [url_digit (unat a div 4),
      url_digit (unat a mod 4 * 16 + unat b div 16),
      url_digit (unat b mod 16 * 4 + unat c div 64),
      url_digit (unat c mod 64)] @ b64url rest"
| "b64url [a, b] =
     [url_digit (unat a div 4),
      url_digit (unat a mod 4 * 16 + unat b div 16),
      url_digit (unat b mod 16 * 4)]"
| "b64url [a] =
     [url_digit (unat a div 4),
      url_digit (unat a mod 4 * 16)]"
| "b64url [] = []"

section \<open>Configuration\<close>

text \<open>
  \<^verbatim>\<open>config\<close> (the configuration module): the base URL and the keys come from the
  environment, \<^verbatim>\<open>jwt.issuer\<close> is the base URL again, and \<^verbatim>\<open>jwt.algorithm\<close> and
  \<^verbatim>\<open>jwt.expiresIn\<close> are the literals \<^verbatim>\<open>'RS256'\<close> and \<^verbatim>\<open>'1h'\<close>.
\<close>

datatype expires_in = ExpiresInString string | ExpiresInNumber int

record config =
  server_baseUrl :: string
  jwt_privateKey :: string
  jwt_publicKey :: string

definition jwt_issuer :: "config \<Rightarrow> string" where
  "jwt_issuer cfg = server_baseUrl cfg"

definition jwt_algorithm :: string where
  "jwt_algorithm = ''RS256''"

definition jwt_expiresIn :: expires_in where
  "jwt_expiresIn = ExpiresInString ''1h''"

definition REFRESH_TOKEN_TTL_MS :: int where
  "REFRESH_TOKEN_TTL_MS = 30 * 24 * 60 * 60 * 1000"

section \<open>The credential store\<close>

text \<open>
  The declarations of the store are in \<^verbatim>\<open>src/server/oauth/storage.ts\<close>, which is not among
  the sources. The repository's architecture notes quote its collections as
  \<^verbatim>\<open>new Map<string, ...>()\<close> and \<^verbatim>\<open>getToken\<close> as \<^verbatim>\<open>tokens.get(accessToken)\<close>. The records
  have the fields of the spec's data model that \<^verbatim>\<open>token.ts\<close> reads and writes, under the
  names it uses for them. Times are milliseconds since the epoch.
\<close>

text \<open>
  Modelled from the spec: the type of an authorization code (AuthorizationCode in the data
  model), declared in the absent \<^verbatim>\<open>storage.ts\<close>.
\<close>

record AuthorizationCode =
  ac_clientId :: string
  ac_privyUserId :: string
  ac_privyToken :: string
  ac_scopes :: "string list"
  ac_codeChallenge :: string
  ac_redirectUri :: string
  ac_expiresAt :: int
  ac_used :: bool

text \<open>
  Modelled from the spec: the type of an access-token record (AccessToken in the data
  model), declared in the absent \<^verbatim>\<open>storage.ts\<close>.
\<close>

record TokenData =
  td_clientId :: string
  td_privyUserId :: string
  td_privyToken :: string
  td_scopes :: "string list"
  td_expiresAt :: int

text \<open>
  Modelled from the spec: the type of a refresh-token record (RefreshToken in the data
  model), declared in the absent \<^verbatim>\<open>storage.ts\<close>.
\<close>

record RefreshTokenData =
  rt_clientId :: string
  rt_privyUserId :: string
  rt_privyToken :: string
  rt_scopes :: "string list"
  rt_expiresAt :: int

text \<open>
  Modelled from the spec: the collections of the absent \<^verbatim>\<open>storage.ts\<close>, each keyed by the
  opaque string identifier of its entries (Credential Store).
\<close>

record store =
  authorizationCodes :: "string \<rightharpoonup> AuthorizationCode"
  tokens :: "string \<rightharpoonup> TokenData"
  refreshTokens :: "string \<rightharpoonup> RefreshTokenData"

text \<open>
  Modelled from the spec: \<^verbatim>\<open>getAuthorizationCode\<close> of the absent \<^verbatim>\<open>storage.ts\<close>, the get of
  the Credential Store on the collection of authorization codes.
\<close>

definition getAuthorizationCode :: "store \<Rightarrow> string \<Rightarrow> AuthorizationCode option" where
  "getAuthorizationCode s c = authorizationCodes s c"

text \<open>
  Modelled from the spec: \<^verbatim>\<open>deleteAuthorizationCode\<close> of the absent \<^verbatim>\<open>storage.ts\<close>, the
  delete of the Credential Store on the collection of authorization codes.
\<close>

definition deleteAuthorizationCode :: "store \<Rightarrow> string \<Rightarrow> store" where
  "deleteAuthorizationCode s c = s\<lparr>authorizationCodes := (authorizationCodes s)(c := None)\<rparr>"

text \<open>
  Modelled from the spec: \<^verbatim>\<open>getToken\<close> of the absent \<^verbatim>\<open>storage.ts\<close>, the get of the
  Credential Store on the collection of access tokens.
\<close>

definition getToken :: "store \<Rightarrow> string \<Rightarrow> TokenData option" where
  "getToken s t = tokens s t"

text \<open>
  Modelled from the spec: \<^verbatim>\<open>storeToken\<close> of the absent \<^verbatim>\<open>storage.ts\<close>, the put of the
  Credential Store on the collection of access tokens, keyed by the token string.
\<close>

definition storeToken :: "store \<Rightarrow> string \<Rightarrow> TokenData \<Rightarrow> store" where
  "storeToken s t d = s\<lparr>tokens := (tokens s)(t \<mapsto> d)\<rparr>"

text \<open>
  Modelled from the spec: \<^verbatim>\<open>getRefreshToken\<close> of the absent \<^verbatim>\<open>storage.ts\<close>, the get of the
  Credential Store on the collection of refresh tokens.
\<close>

definition getRefreshToken :: "store \<Rightarrow> string \<Rightarrow> RefreshTokenData option" where
  "getRefreshToken s t = refreshTokens s t"

text \<open>
  Modelled from the spec: \<^verbatim>\<open>deleteRefreshToken\<close> of the absent \<^verbatim>\<open>storage.ts\<close>, the delete
  of the Credential Store on the collection of refresh tokens.
\<close>

definition deleteRefreshToken :: "store \<Rightarrow> string \<Rightarrow> store" where
  "deleteRefreshToken s t = s\<lparr>refreshTokens := (refreshTokens s)(t := None)\<rparr>"

text \<open>
  Modelled from the spec: \<^verbatim>\<open>storeRefreshToken\<close> of the absent \<^verbatim>\<open>storage.ts\<close>, the put of
  the Credential Store on the collection of refresh tokens. It creates the token string
  itself (the spec: opaque, unguessable, a new value) and returns it. The value it
  creates is an input here, \<open>generated\<close>.
\<close>

definition storeRefreshToken :: "store \<Rightarrow> string \<Rightarrow> RefreshTokenData \<Rightarrow> string \<times> store" where
  "storeRefreshToken s generated d =
     (generated, s\<lparr>refreshTokens := (refreshTokens s)(generated \<mapsto> d)\<rparr>)"

section \<open>The environment of one request\<close>

text \<open>
  A handler reads the clock up to three times (\<^verbatim>\<open>Date.now()\<close>): at the expiry check,
  when it builds the access-token record and when it builds the refresh-token record.
  \<open>generated\<close> is the token string that \<^verbatim>\<open>storeRefreshToken\<close> creates during the request.
\<close>

record env =
  now_check :: int
  now_access :: int
  now_refresh :: int
  generated :: string

text \<open>
  \<^verbatim>\<open>jwt.sign(payload, key, options)\<close> and \<^verbatim>\<open>jwt.verify(token, key, options)\<close> belong to the
  JSON Web Token library. They are parameters of the model; \<open>None\<close> is the exception that
  \<^verbatim>\<open>verify\<close> throws for a token it rejects.
\<close>

record sign_payload =
  sp_sub :: string
  sp_scope :: string
  sp_aud :: string
  sp_client_id :: string

record sign_options =
  so_algorithm :: string
  so_expiresIn :: expires_in
  so_issuer :: string
  so_keyid :: string

type_synonym signer = "sign_payload \<Rightarrow> string \<Rightarrow> sign_options \<Rightarrow> string"

record JwtPayload =
  jp_sub :: "string option"
  jp_scope :: "string option"
  jp_client_id :: "string option"
  jp_exp :: "int option"
  jp_iat :: "int option"
  jp_iss :: "string option"
  jp_aud :: "string option"

record verify_options =
  vo_algorithms :: "string list"
  vo_issuer :: string

type_synonym verifier = "string \<Rightarrow> string \<Rightarrow> verify_options \<Rightarrow> JwtPayload option"

section \<open>The token endpoint\<close>

record token_response =
  access_token :: string
  res_refresh_token :: string
  token_type :: string
  expires_in :: int
  scope :: string

datatype response =
    ErrorResponse nat string string
  | TokenResponse token_response

text \<open>
  \<^verbatim>\<open>issueAccessToken\<close>: the signed token, the identity token handed back as it came, and
  the lifetime in seconds.
\<close>

definition expiresInSeconds :: "expires_in \<Rightarrow> int" where
  "expiresInSeconds e = (case e of ExpiresInString _ \<Rightarrow> 3600 | ExpiresInNumber n \<Rightarrow> n div 1000)"

definition issueAccessToken ::
  "config \<Rightarrow> signer \<Rightarrow> string \<Rightarrow> string \<Rightarrow> string list \<Rightarrow> string \<Rightarrow> string
     \<Rightarrow> string \<times> string \<times> int" where
  "issueAccessToken cfg sign privyUserId privyToken scopes clientId audience =
     (let accessToken = sign
            \<lparr>sp_sub = privyUserId, sp_scope = join '' '' scopes, sp_aud = audience,
             sp_client_id = clientId\<rparr>
            (jwt_privateKey cfg)
            \<lparr>so_algorithm = jwt_algorithm, so_expiresIn = jwt_expiresIn,
             so_issuer = jwt_issuer cfg, so_keyid = ''key-1''\<rparr>
      in (accessToken, privyToken, expiresInSeconds jwt_expiresIn))"

text \<open>\<^verbatim>\<open>resource || config.server.baseUrl\<close>\<close>

definition audience_of :: "config \<Rightarrow> string option \<Rightarrow> string" where
  "audience_of cfg r = (case r of None \<Rightarrow> server_baseUrl cfg
                        | Some a \<Rightarrow> if a = [] then server_baseUrl cfg else a)"

definition invalid_request_code :: response where
  "invalid_request_code =
     ErrorResponse 400 ''invalid_request'' ''Missing required parameters: code and code_verifier''"

definition invalid_client_id :: response where
  "invalid_client_id = ErrorResponse 400 ''invalid_grant'' ''Invalid client_id''"

text \<open>
  \<^verbatim>\<open>handleAuthorizationCodeGrant\<close>, top to bottom. Beside the response it gives the
  stores that the handler writes, in order: none where it only answers, one where it
  deletes an expired code, three where it redeems (the code deleted, the access token
  stored, the refresh token stored).
\<close>

definition handleAuthorizationCodeGrant_writes ::
  "config \<Rightarrow> signer \<Rightarrow> env \<Rightarrow> store \<Rightarrow> body \<Rightarrow> response \<times> store list" where
  "handleAuthorizationCodeGrant_writes cfg sign e s req =
    (case code req of None \<Rightarrow> (invalid_request_code, []) | Some c \<Rightarrow>
     if c = [] then (invalid_request_code, []) else
     case code_verifier req of None \<Rightarrow> (invalid_request_code, []) | Some v \<Rightarrow>
     if v = [] then (invalid_request_code, []) else
     case getAuthorizationCode s c of
       None \<Rightarrow>
         (ErrorResponse 400 ''invalid_grant'' ''Invalid or expired authorization code'', [])
     | Some authCode \<Rightarrow>
         if ac_used authCode then
           (ErrorResponse 400 ''invalid_grant'' ''Authorization code has already been used'', [])
         else if ac_expiresAt authCode < now_check e then
           (ErrorResponse 400 ''invalid_grant'' ''Authorization code has expired'',
            [deleteAuthorizationCode s c])
         else
         case client_id req of None \<Rightarrow> (invalid_client_id, []) | Some cid \<Rightarrow>
         if ac_clientId authCode \<noteq> cid then (invalid_client_id, [])
         else if \<not> falsy (redirect_uri req) \<and> Some (ac_redirectUri authCode) \<noteq> redirect_uri req then
           (ErrorResponse 400 ''invalid_grant'' ''redirect_uri does not match'', [])
         else if \<not> validatePKCE v (ac_codeChallenge authCode) then
           (ErrorResponse 400 ''invalid_grant''
              ''Invalid code_verifier (PKCE validation failed)'', [])
         else
           (let s1 = deleteAuthorizationCode s c;
                audience = audience_of cfg (resource req);
                (accessToken, privyToken, expiresIn) =
                  issueAccessToken cfg sign (ac_privyUserId authCode) (ac_privyToken authCode)
                    (ac_scopes authCode) cid audience;
                s2 = storeToken s1 accessToken
                       \<lparr>td_clientId = cid, td_privyUserId = ac_privyUserId authCode,
                        td_privyToken = privyToken, td_scopes = ac_scopes authCode,
                        td_expiresAt = now_access e + expiresIn * 1000\<rparr>;
                (refreshToken, s3) = storeRefreshToken s2 (generated e)
                       \<lparr>rt_clientId = cid, rt_privyUserId = ac_privyUserId authCode,
                        rt_privyToken = ac_privyToken authCode, rt_scopes = ac_scopes authCode,
                        rt_expiresAt = now_refresh e + REFRESH_TOKEN_TTL_MS\<rparr>
            in (TokenResponse
                  \<lparr>access_token = accessToken, res_refresh_token = refreshToken,
                   token_type = ''Bearer'', expires_in = expiresIn,
                   scope = join '' '' (ac_scopes authCode)\<rparr>, [s1, s2, s3])))"

text \<open>The store the handler leaves behind is the last one it wrote.\<close>

definition handleAuthorizationCodeGrant ::
  "config \<Rightarrow> signer \<Rightarrow> env \<Rightarrow> store \<Rightarrow> body \<Rightarrow> response \<times> store" where
  "handleAuthorizationCodeGrant cfg sign e s req =
     (let (res, writes) = handleAuthorizationCodeGrant_writes cfg sign e s req
      in (res, last (s # writes)))"

text \<open>
  The \<^verbatim>\<open>used\<close> flag of the code \<open>c\<close> in each of a list of stores: \<open>None\<close> where the
  store has no such code.
\<close>

definition used_flags :: "string \<Rightarrow> store list \<Rightarrow> bool option list" where
  "used_flags c stores = map (\<lambda>st. map_option ac_used (authorizationCodes st c)) stores"

definition invalid_request_refresh :: response where
  "invalid_request_refresh =
     ErrorResponse 400 ''invalid_request'' ''Missing required parameter: refresh_token''"

definition handleRefreshTokenGrant ::
  "config \<Rightarrow> signer \<Rightarrow> env \<Rightarrow> store \<Rightarrow> body \<Rightarrow> response \<times> store" where
  "handleRefreshTokenGrant cfg sign e s req =
    (case refresh_token req of None \<Rightarrow> (invalid_request_refresh, s) | Some t \<Rightarrow>
     if t = [] then (invalid_request_refresh, s) else
     case getRefreshToken s t of
       None \<Rightarrow> (ErrorResponse 400 ''invalid_grant'' ''Invalid refresh_token'', s)
     | Some storedRefreshToken \<Rightarrow>
         if Some (rt_clientId storedRefreshToken) \<noteq> client_id req then
           (ErrorResponse 400 ''invalid_grant'' ''Client mismatch for refresh_token'', s)
         else if rt_expiresAt storedRefreshToken < now_check e then
           (ErrorResponse 400 ''invalid_grant'' ''refresh_token has expired'',
            deleteRefreshToken s t)
         else
           (let s1 = deleteRefreshToken s t;
                (newRefreshToken, s2) = storeRefreshToken s1 (generated e)
                       \<lparr>rt_clientId = rt_clientId storedRefreshToken,
                        rt_privyUserId = rt_privyUserId storedRefreshToken,
                        rt_privyToken = rt_privyToken storedRefreshToken,
                        rt_scopes = rt_scopes storedRefreshToken,
                        rt_expiresAt = now_refresh e + REFRESH_TOKEN_TTL_MS\<rparr>;
                audience = audience_of cfg (resource req);
                (accessToken, privyToken, expiresIn) =
                  issueAccessToken cfg sign (rt_privyUserId storedRefreshToken)
                    (rt_privyToken storedRefreshToken) (rt_scopes storedRefreshToken)
                    (rt_clientId storedRefreshToken) audience;
                s3 = storeToken s2 accessToken
                       \<lparr>td_clientId = rt_clientId storedRefreshToken,
                        td_privyUserId = rt_privyUserId storedRefreshToken,
                        td_privyToken = privyToken,
                        td_scopes = rt_scopes storedRefreshToken,
                        td_expiresAt = now_access e + expiresIn * 1000\<rparr>
            in (TokenResponse
                  \<lparr>access_token = accessToken, res_refresh_token = newRefreshToken,
                   token_type = ''Bearer'', expires_in = expiresIn,
                   scope = join '' '' (rt_scopes storedRefreshToken)\<rparr>, s3)))"

text \<open>
  \<^verbatim>\<open>tokenRouter.post('/')\<close>. The text of an absent \<^verbatim>\<open>grant_type\<close> in the description is
  \<^verbatim>\<open>undefined\<close>, as the template literal prints it.
\<close>

definition token_endpoint ::
  "config \<Rightarrow> signer \<Rightarrow> env \<Rightarrow> store \<Rightarrow> body \<Rightarrow> response \<times> store" where
  "token_endpoint cfg sign e s req =
    (if falsy (client_id req) then
       (ErrorResponse 400 ''invalid_request'' ''Missing required parameter: client_id'', s)
     else if grant_type req = Some ''authorization_code'' then
       handleAuthorizationCodeGrant cfg sign e s req
     else if grant_type req = Some ''refresh_token'' then
       handleRefreshTokenGrant cfg sign e s req
     else
       (ErrorResponse 400 ''unsupported_grant_type''
          (''Unsupported grant_type: '' @
             (case grant_type req of None \<Rightarrow> ''undefined'' | Some g \<Rightarrow> g)), s))"

section \<open>Introspection\<close>

datatype introspection =
    Inactive
  | Active "string option" "string option" "string option" "int option" "int option"
      "string option" "string option"

text \<open>
  \<^verbatim>\<open>tokenRouter.post('/introspect')\<close>: the status and the body. The fields of an active
  answer are \<^verbatim>\<open>sub, scope, client_id, exp, iat, iss, aud\<close>, in this order.
\<close>

definition introspect :: "config \<Rightarrow> verifier \<Rightarrow> string option \<Rightarrow> nat \<times> introspection" where
  "introspect cfg verify token =
    (case token of None \<Rightarrow> (400, Inactive) | Some t \<Rightarrow>
     if t = [] then (400, Inactive) else
     case verify t (jwt_publicKey cfg)
            \<lparr>vo_algorithms = [jwt_algorithm], vo_issuer = jwt_issuer cfg\<rparr> of
       None \<Rightarrow> (200, Inactive)
     | Some decoded \<Rightarrow>
         (200, Active (jp_sub decoded) (jp_scope decoded) (jp_client_id decoded)
                 (jp_exp decoded) (jp_iat decoded) (jp_iss decoded) (jp_aud decoded)))"

section \<open>The identity bridge\<close>

record exchange_body =
  privyAccessToken :: string
  expiresAt :: int
  issuedAt :: "int option"
  userId :: string
  ex_scope :: "string list"

datatype exchange_response =
    ExchangeError nat string
  | ExchangeOk exchange_body

text \<open>
  \<^verbatim>\<open>tokenRouter.post('/privy/access-token')\<close>, after the bearer middleware has accepted
  the caller: \<open>oauthToken\<close> is \<^verbatim>\<open>req.auth?.token\<close>.
\<close>

definition privy_access_token :: "store \<Rightarrow> string option \<Rightarrow> exchange_response" where
  "privy_access_token s oauthToken =
    (case oauthToken of None \<Rightarrow> ExchangeError 401 ''unauthorized'' | Some t \<Rightarrow>
     if t = [] then ExchangeError 401 ''unauthorized'' else
     case getToken s t of
       None \<Rightarrow> ExchangeError 404 ''token_not_found''
     | Some tokenData \<Rightarrow>
         ExchangeOk \<lparr>privyAccessToken = td_privyToken tokenData,
                     expiresAt = td_expiresAt tokenData,
                     issuedAt = None,
                     userId = td_privyUserId tokenData,
                     ex_scope = td_scopes tokenData\<rparr>)"

section \<open>Sequences of requests and sample data\<close>

text \<open>
  The store after a sequence of requests to the token endpoint, each with its
  environment. The handlers have no \<^verbatim>\<open>await\<close>: each runs to its end before the next
  request is served, so the requests of the server act on the store one after the other.
\<close>

fun run_requests :: "config \<Rightarrow> signer \<Rightarrow> store \<Rightarrow> (env \<times> body) list \<Rightarrow> store" where
  "run_requests cfg sign s [] = s"
| "run_requests cfg sign s ((e, req) # rest) =
     run_requests cfg sign (snd (token_endpoint cfg sign e s req)) rest"

text \<open>
  No authorization code of the store is marked used. The token endpoint only reads the
  flag, so it keeps this; the codes come from the authorization endpoint, where the
  spec has the flag start at false.
\<close>

definition all_unused :: "store \<Rightarrow> bool" where
  "all_unused s = (\<forall>c a. authorizationCodes s c = Some a \<longrightarrow> \<not> ac_used a)"

text \<open>
  Modelled from the spec: the generator inside \<^verbatim>\<open>storeRefreshToken\<close> of the absent
  \<^verbatim>\<open>storage.ts\<close>. The spec calls the token it creates opaque, unguessable and new. The
  value drawn is taken unless it is among the values created before; a value that is not
  among them then stands for the next draw.
\<close>

definition new_token :: "string list \<Rightarrow> string \<Rightarrow> string" where
  "new_token made drawn = (if drawn \<in> set made then concat made @ ''0'' else drawn)"

text \<open>
  Modelled from the spec: the server state that goes with this generator, the store
  together with the refresh-token strings created so far.
\<close>

record server =
  srv_store :: store
  created :: "string list"

text \<open>
  Modelled from the spec: one request to the token endpoint of such a server. The
  \<open>generated\<close> value of the environment is the draw; the handler runs with the new token
  made of it.
\<close>

definition serve :: "config \<Rightarrow> signer \<Rightarrow> env \<Rightarrow> server \<Rightarrow> body \<Rightarrow> response \<times> server" where
  "serve cfg sign e srv req =
     (let g = new_token (created srv) (generated e);
          (res, s') = token_endpoint cfg sign (e\<lparr>generated := g\<rparr>) (srv_store srv) req
      in (res, \<lparr>srv_store = s', created = g # created srv\<rparr>))"

fun run_server :: "config \<Rightarrow> signer \<Rightarrow> server \<Rightarrow> (env \<times> body) list \<Rightarrow> server" where
  "run_server cfg sign srv [] = srv"
| "run_server cfg sign srv ((e, req) # rest) =
     run_server cfg sign (snd (serve cfg sign e srv req)) rest"

text \<open>Every refresh token of the store is one the server has created.\<close>

definition created_ok :: "server \<Rightarrow> bool" where
  "created_ok srv = (dom (refreshTokens (srv_store srv)) \<subseteq> set (created srv))"

text \<open>Sample data: a server, a signer and a verifier standing for the library, a store.\<close>

definition cfg0 :: config where
  "cfg0 = \<lparr>server_baseUrl = ''https://mcp.example'', jwt_privateKey = ''private'',
           jwt_publicKey = ''public''\<rparr>"

definition sign0 :: signer where
  "sign0 p key opts = ''jwt:'' @ sp_sub p @ '':'' @ sp_scope p @ '':'' @ sp_aud p"

definition payload0 :: JwtPayload where
  "payload0 = \<lparr>jp_sub = Some ''did:privy:user-1'', jp_scope = Some ''read privy:token:exchange'',
               jp_client_id = Some ''chatgpt-connector'', jp_exp = Some 1700003600,
               jp_iat = Some 1700000000, jp_iss = Some ''https://mcp.example'',
               jp_aud = Some ''https://mcp.example''\<rparr>"

definition verify0 :: verifier where
  "verify0 t key opts =
     (if t = ''good.jwt'' \<and> key = ''public'' \<and> vo_issuer opts = ''https://mcp.example''
      then Some payload0 else None)"

definition code0 :: AuthorizationCode where
  "code0 = \<lparr>ac_clientId = ''chatgpt-connector'', ac_privyUserId = ''did:privy:user-1'',
            ac_privyToken = ''privy-token-1'', ac_scopes = [''read'', ''privy:token:exchange''],
            ac_codeChallenge = generateCodeChallenge (ascii ''verifier-1''),
            ac_redirectUri = ''https://client.example/cb'',
            ac_expiresAt = 1700000030000, ac_used = False\<rparr>"

definition refresh0 :: RefreshTokenData where
  "refresh0 = \<lparr>rt_clientId = ''chatgpt-connector'', rt_privyUserId = ''did:privy:user-1'',
               rt_privyToken = ''privy-token-1'', rt_scopes = [''read'', ''privy:token:exchange''],
               rt_expiresAt = 1702592000000\<rparr>"

definition token0 :: TokenData where
  "token0 = \<lparr>td_clientId = ''chatgpt-connector'', td_privyUserId = ''did:privy:user-1'',
             td_privyToken = ''privy-token-1'', td_scopes = [''read'', ''privy:token:exchange''],
             td_expiresAt = 1700003600000\<rparr>"

definition store0 :: store where
  "store0 = \<lparr>authorizationCodes = [''code-1'' \<mapsto> code0],
             tokens = [''jwt-0'' \<mapsto> token0],
             refreshTokens = [''refresh-0'' \<mapsto> refresh0]\<rparr>"

definition env0 :: env where
  "env0 = \<lparr>now_check = 1700000010000, now_access = 1700000010001,
           now_refresh = 1700000010002, generated = ''refresh-1''\<rparr>"

definition env1 :: env where
  "env1 = \<lparr>now_check = 1700000020000, now_access = 1700000020000,
           now_refresh = 1700000020000, generated = ''refresh-2''\<rparr>"


definition late :: env where
  "late = \<lparr>now_check = 1700000030001, now_access = 1700000030001,
           now_refresh = 1700000030001, generated = ''refresh-3''\<rparr>"

definition no_params :: body where
  "no_params = \<lparr>grant_type = None, client_id = None, code = None, code_verifier = None,
                redirect_uri = None, resource = None, refresh_token = None\<rparr>"

definition redeem0 :: body where
  "redeem0 = no_params\<lparr>grant_type := Some ''authorization_code'',
                        client_id := Some ''chatgpt-connector'', code := Some ''code-1'',
                        code_verifier := Some (ascii ''verifier-1''),
                        redirect_uri := Some ''https://client.example/cb''\<rparr>"

definition rotate0 :: body where
  "rotate0 = no_params\<lparr>grant_type := Some ''refresh_token'',
                        client_id := Some ''chatgpt-connector'',
                        refresh_token := Some ''refresh-0''\<rparr>"

text \<open>
  A store whose code carries the challenge of another verifier (the example challenge of
  RFC 7636), and one whose code carries the challenge of a verifier that is a single
  low-range surrogate, with a redemption that presents another single surrogate.
\<close>

definition code_rfc :: AuthorizationCode where
  "code_rfc = code0\<lparr>ac_codeChallenge := ''E9Melhoa2OwvFrEMTJguCHaoeK1t8URWbuGJSstw-cM''\<rparr>"

definition store_rfc :: store where
  "store_rfc = store0\<lparr>authorizationCodes := [''code-1'' \<mapsto> code_rfc]\<rparr>"

definition redeem_abc :: body where
  "redeem_abc = redeem0\<lparr>code_verifier := Some (ascii ''abc'')\<rparr>"

definition code_surrogate :: AuthorizationCode where
  "code_surrogate = code0\<lparr>ac_codeChallenge := generateCodeChallenge [0xD801]\<rparr>"

definition store_surrogate :: store where
  "store_surrogate = store0\<lparr>authorizationCodes := [''code-1'' \<mapsto> code_surrogate]\<rparr>"

definition redeem_surrogate :: body where
  "redeem_surrogate = redeem0\<lparr>code_verifier := Some [0xD800]\<rparr>"


text \<open>The answers to the sample redemption and to the sample rotation.\<close>

definition response0 :: token_response where
  "response0 = \<lparr>access_token = ''jwt:did:privy:user-1:read privy:token:exchange:https://mcp.example'',
                 res_refresh_token = ''refresh-1'', token_type = ''Bearer'', expires_in = 3600,
                 scope = ''read privy:token:exchange''\<rparr>"

definition response1 :: token_response where
  "response1 = \<lparr>access_token = ''jwt:did:privy:user-1:read privy:token:exchange:https://mcp.example'',
                 res_refresh_token = ''refresh-2'', token_type = ''Bearer'', expires_in = 3600,
                 scope = ''read privy:token:exchange''\<rparr>"

section \<open>The encoding of a challenge\<close>

text \<open>The two ways of writing base64url without padding agree.\<close>

lemma url_digits:
  "map url_digit [0..<64] = ''ABCDEFGHIJKLMNOPQRSTUVWXYZabcdefghijklmnopqrstuvwxyz0123456789-_''"
  by code_simp

lemma url_digit_inj:
  assumes "n < 64" and "m < 64" and "url_digit n = url_digit m"
  shows "n = m"
proof -
  have "distinct (map url_digit [0..<64])"
    unfolding url_digits by simp
  then have "inj_on url_digit (set [0..<64])"
    by (simp add: distinct_map)
  then show ?thesis
    using assms by (auto dest: inj_onD)
qed

lemma url_digit_not_pad:
  assumes "n < 64"
  shows "url_digit n \<noteq> CHR ''=''"
proof -
  have "url_digit n \<in> set (map url_digit [0..<64])"
    using assms by auto
  then show ?thesis
    unfolding url_digits by auto
qed

lemma replace_digit:
  assumes "n < 64"
  shows "replace_all (CHR ''='') [] (replace_all (CHR ''/'') ''_'' (replace_all (CHR ''+'') ''-''
           (b64_digit n # s)))
         = url_digit n # replace_all (CHR ''='') [] (replace_all (CHR ''/'') ''_''
             (replace_all (CHR ''+'') ''-'' s))"
  using url_digit_not_pad [OF assms]
  by (auto simp add: replace_all_def url_digit_def split: if_splits)

lemma replace_pad:
  "replace_all (CHR ''='') [] (replace_all (CHR ''/'') ''_'' (replace_all (CHR ''+'') ''-''
           (CHR ''='' # s)))
         = replace_all (CHR ''='') [] (replace_all (CHR ''/'') ''_''
             (replace_all (CHR ''+'') ''-'' s))"
  by (simp add: replace_all_def)

lemma byte_bound:
  fixes a :: byte
  shows "unat a < 256"
  using unsigned_less [of a, where 'a = nat] by simp

lemma sextets:
  fixes a b c :: byte
  shows "unat a div 4 < 64" "unat a mod 4 * 16 + unat b div 16 < 64"
    "unat b mod 16 * 4 + unat c div 64 < 64" "unat c mod 64 < 64"
    "unat a mod 4 * 16 < 64" "unat b mod 16 * 4 < 64"
proof -
  have "unat a mod 4 < 4" "unat b div 16 < 16" "unat b mod 16 < 16" "unat c div 64 < 4"
    using byte_bound [of b] byte_bound [of c] by simp_all
  then show "unat a mod 4 * 16 + unat b div 16 < 64"
    "unat b mod 16 * 4 + unat c div 64 < 64" "unat a mod 4 * 16 < 64" "unat b mod 16 * 4 < 64"
    by linarith+
  show "unat a div 4 < 64" "unat c mod 64 < 64"
    using byte_bound [of a] by simp_all
qed

lemma base64UrlEncode_b64url: "base64UrlEncode xs = b64url xs"
proof (induction xs rule: base64.induct)
  case (1 a b c rest)
  then show ?case
    by (simp add: base64UrlEncode_def replace_digit sextets)
next
  case (2 a b)
  then show ?case
    by (simp add: base64UrlEncode_def replace_digit replace_pad sextets) (simp add: replace_all_def)
next
  case (3 a)
  then show ?case
    by (simp add: base64UrlEncode_def replace_digit replace_pad sextets) (simp add: replace_all_def)
next
  case 4
  then show ?case by (simp add: base64UrlEncode_def replace_all_def)
qed

text \<open>
  The encoding is injective: the digits give the sextets back, the sextets the bytes.
\<close>

lemma split_digits:
  fixes x y x' y' :: nat
  assumes "y < k" and "y' < k" and "x * k + y = x' * k + y'"
  shows "x = x' \<and> y = y'"
proof -
  have "(x * k + y) div k = x" "(x' * k + y') div k = x'"
    using assms(1,2) by simp_all
  with assms(3) have "x = x'" by simp
  with assms(3) show ?thesis by simp
qed

lemma join_digits:
  fixes n m :: nat
  assumes "n div k = m div k" and "n mod k = m mod k"
  shows "n = m"
  using assms by (metis div_mult_mod_eq)

lemma bytes_of_sextets:
  fixes a b c a' b' c' :: byte
  assumes "unat a div 4 = unat a' div 4"
    and "unat a mod 4 * 16 + unat b div 16 = unat a' mod 4 * 16 + unat b' div 16"
    and "unat b mod 16 * 4 + unat c div 64 = unat b' mod 16 * 4 + unat c' div 64"
    and "unat c mod 64 = unat c' mod 64"
  shows "a = a' \<and> b = b' \<and> c = c'"
proof -
  have bd: "unat b div 16 < 16" "unat b' div 16 < 16" "unat c div 64 < 4" "unat c' div 64 < 4"
    using byte_bound [of b] byte_bound [of b'] byte_bound [of c] byte_bound [of c'] by simp_all
  from split_digits [OF bd(1,2) assms(2)]
  have a: "unat a mod 4 = unat a' mod 4" and b1: "unat b div 16 = unat b' div 16" by simp_all
  from split_digits [OF bd(3,4) assms(3)]
  have b2: "unat b mod 16 = unat b' mod 16" and c: "unat c div 64 = unat c' div 64" by simp_all
  have "unat a = unat a'" using assms(1) a by (rule join_digits)
  moreover have "unat b = unat b'" using b1 b2 by (rule join_digits)
  moreover have "unat c = unat c'" using c assms(4) by (rule join_digits)
  ultimately show ?thesis by (simp add: word_unat_eq_iff)
qed

lemma bytes_of_sextets2:
  fixes a b a' b' :: byte
  assumes "unat a div 4 = unat a' div 4"
    and "unat a mod 4 * 16 + unat b div 16 = unat a' mod 4 * 16 + unat b' div 16"
    and "unat b mod 16 * 4 = unat b' mod 16 * 4"
  shows "a = a' \<and> b = b'"
proof -
  have bd: "unat b div 16 < 16" "unat b' div 16 < 16"
    using byte_bound [of b] byte_bound [of b'] by simp_all
  from split_digits [OF bd(1,2) assms(2)]
  have a: "unat a mod 4 = unat a' mod 4" and b1: "unat b div 16 = unat b' div 16" by simp_all
  have b2: "unat b mod 16 = unat b' mod 16" using assms(3) by simp
  have "unat a = unat a'" using assms(1) a by (rule join_digits)
  moreover have "unat b = unat b'" using b1 b2 by (rule join_digits)
  ultimately show ?thesis by (simp add: word_unat_eq_iff)
qed

lemma bytes_of_sextets1:
  fixes a a' :: byte
  assumes "unat a div 4 = unat a' div 4" and "unat a mod 4 * 16 = unat a' mod 4 * 16"
  shows "a = a'"
proof -
  have "unat a mod 4 = unat a' mod 4" using assms(2) by simp
  with assms(1) have "unat a = unat a'" by (rule join_digits)
  then show ?thesis by (simp add: word_unat_eq_iff)
qed

lemma b64url_inj: "b64url xs = b64url ys \<Longrightarrow> xs = ys"
proof (induction xs arbitrary: ys rule: b64url.induct)
  case (1 a b c rest)
  show ?case
  proof (cases ys rule: b64url.cases)
    case (1 a' b' c' rest')
    with "1.prems" have d: "url_digit (unat a div 4) = url_digit (unat a' div 4)"
      "url_digit (unat a mod 4 * 16 + unat b div 16)
         = url_digit (unat a' mod 4 * 16 + unat b' div 16)"
      "url_digit (unat b mod 16 * 4 + unat c div 64)
         = url_digit (unat b' mod 16 * 4 + unat c' div 64)"
      "url_digit (unat c mod 64) = url_digit (unat c' mod 64)"
      and r: "b64url rest = b64url rest'"
      by simp_all
    have "a = a' \<and> b = b' \<and> c = c'"
      by (rule bytes_of_sextets) (rule url_digit_inj [OF _ _ d(1)] url_digit_inj [OF _ _ d(2)]
            url_digit_inj [OF _ _ d(3)] url_digit_inj [OF _ _ d(4)], rule sextets, rule sextets)+
    moreover have "rest = rest'" using r by (rule "1.IH")
    ultimately show ?thesis using 1 by simp
  qed (use "1.prems" in simp_all)
next
  case (2 a b)
  show ?case
  proof (cases ys rule: b64url.cases)
    case (2 a' b')
    with "2.prems" have d: "url_digit (unat a div 4) = url_digit (unat a' div 4)"
      "url_digit (unat a mod 4 * 16 + unat b div 16)
         = url_digit (unat a' mod 4 * 16 + unat b' div 16)"
      "url_digit (unat b mod 16 * 4) = url_digit (unat b' mod 16 * 4)"
      by simp_all
    have "a = a' \<and> b = b'"
      by (rule bytes_of_sextets2) (rule url_digit_inj [OF _ _ d(1)] url_digit_inj [OF _ _ d(2)]
            url_digit_inj [OF _ _ d(3)], rule sextets, rule sextets)+
    then show ?thesis using 2 by simp
  qed (use "2.prems" in simp_all)
next
  case (3 a)
  show ?case
  proof (cases ys rule: b64url.cases)
    case (3 a')
    with "3.prems" have d: "url_digit (unat a div 4) = url_digit (unat a' div 4)"
      "url_digit (unat a mod 4 * 16) = url_digit (unat a' mod 4 * 16)"
      by simp_all
    have "a = a'"
      by (rule bytes_of_sextets1) (rule url_digit_inj [OF _ _ d(1)] url_digit_inj [OF _ _ d(2)],
            rule sextets, rule sextets)+
    then show ?thesis using 3 by simp
  qed (use "3.prems" in simp_all)
next
  case 4
  then show ?case by (cases ys rule: b64url.cases) simp_all
qed

lemma base64UrlEncode_inj: "base64UrlEncode xs = base64UrlEncode ys \<Longrightarrow> xs = ys"
  by (simp add: base64UrlEncode_b64url b64url_inj)

text \<open>
  A surrogate that stands alone is encoded as U+FFFD, whichever surrogate it is.
\<close>

lemma lone_surrogates: "utf8 [0xD800] = replacement" "utf8 [0xD801] = replacement"
  by simp_all

lemma ascii_empty [simp]: "ascii s = [] \<longleftrightarrow> s = []"
  by (simp add: ascii_def)

text \<open>The challenge of the verifier \<^verbatim>\<open>abc\<close>, computed.\<close>

lemma challenge_abc:
  "generateCodeChallenge (ascii ''abc'') = ''ungWv48Bz-pBQUDeXa4iI7ADYaOWF3qctBD_YfIAFa0''"
  by code_simp

lemma validatePKCE_roundtrip [simp]: "validatePKCE v (generateCodeChallenge v)"
  by (simp add: validatePKCE_def generateCodeChallenge_def)

section \<open>What the handlers check and write\<close>

text \<open>
  What \<open>join\<close> computes, without recursion: the first element, then every further element
  with the separator before it.
\<close>

lemma join_spaced:
  "join sep xs = (case xs of [] \<Rightarrow> [] | x # ys \<Rightarrow> x @ concat (map (\<lambda>y. sep @ y) ys))"
  by (induction sep xs rule: join.induct) simp_all

lemma join_single_spaces:
  "join '' '' xs = (case xs of [] \<Rightarrow> [] | x # ys \<Rightarrow> x @ concat (map (\<lambda>y. CHR '' '' # y) ys))"
  by (induction "'' ''" xs rule: join.induct) simp_all

lemma issueAccessToken_parts:
  "issueAccessToken cfg sign u p sc cid aud =
     (sign \<lparr>sp_sub = u, sp_scope = join '' '' sc, sp_aud = aud, sp_client_id = cid\<rparr>
        (jwt_privateKey cfg)
        \<lparr>so_algorithm = jwt_algorithm, so_expiresIn = jwt_expiresIn,
         so_issuer = jwt_issuer cfg, so_keyid = ''key-1''\<rparr>, p, 3600)"
  by (simp add: issueAccessToken_def expiresInSeconds_def jwt_expiresIn_def)

lemmas code_grant_defs =
  handleAuthorizationCodeGrant_def handleAuthorizationCodeGrant_writes_def
  issueAccessToken_parts getAuthorizationCode_def deleteAuthorizationCode_def
  storeToken_def storeRefreshToken_def invalid_request_code_def invalid_client_id_def Let_def

lemmas refresh_grant_defs =
  handleRefreshTokenGrant_def issueAccessToken_parts getRefreshToken_def
  deleteRefreshToken_def storeToken_def storeRefreshToken_def invalid_request_refresh_def
  Let_def

lemmas sample_defs =
  cfg0_def sign0_def store0_def code0_def refresh0_def token0_def env0_def env1_def late_def
  no_params_def redeem0_def rotate0_def response0_def jwt_issuer_def
  REFRESH_TOKEN_TTL_MS_def audience_of_def falsy_def

text \<open>What a request that is answered with tokens has checked and written.\<close>

lemma code_grant_success:
  assumes "handleAuthorizationCodeGrant cfg sign e s req = (TokenResponse r, s')"
  shows "\<exists>c v a.
           code req = Some c \<and> c \<noteq> [] \<and> code_verifier req = Some v \<and> v \<noteq> []
         \<and> authorizationCodes s c = Some a \<and> \<not> ac_used a \<and> \<not> ac_expiresAt a < now_check e
         \<and> client_id req = Some (ac_clientId a) \<and> validatePKCE v (ac_codeChallenge a)
         \<and> r = \<lparr>access_token = fst (issueAccessToken cfg sign (ac_privyUserId a)
                     (ac_privyToken a) (ac_scopes a) (ac_clientId a)
                     (audience_of cfg (resource req))),
                 res_refresh_token = generated e, token_type = ''Bearer'',
                 expires_in = 3600, scope = join '' '' (ac_scopes a)\<rparr>
         \<and> authorizationCodes s' = (authorizationCodes s)(c := None)
         \<and> tokens s' = (tokens s)(access_token r \<mapsto>
               \<lparr>td_clientId = ac_clientId a, td_privyUserId = ac_privyUserId a,
                td_privyToken = ac_privyToken a, td_scopes = ac_scopes a,
                td_expiresAt = now_access e + 3600 * 1000\<rparr>)
         \<and> refreshTokens s' = (refreshTokens s)(generated e \<mapsto>
               \<lparr>rt_clientId = ac_clientId a, rt_privyUserId = ac_privyUserId a,
                rt_privyToken = ac_privyToken a, rt_scopes = ac_scopes a,
                rt_expiresAt = now_refresh e + REFRESH_TOKEN_TTL_MS\<rparr>)"
  using assms
  by (auto simp add: code_grant_defs split: option.splits if_splits)

lemma code_grant_writes_success:
  assumes "handleAuthorizationCodeGrant_writes cfg sign e s req = (TokenResponse r, ws)"
  shows "\<exists>c a s2 s3.
           code req = Some c \<and> authorizationCodes s c = Some a \<and> \<not> ac_used a
         \<and> ws = [deleteAuthorizationCode s c, s2, s3]
         \<and> authorizationCodes s2 = authorizationCodes (deleteAuthorizationCode s c)
         \<and> authorizationCodes s3 = authorizationCodes (deleteAuthorizationCode s c)"
  using assms
  by (auto simp add: code_grant_defs split: option.splits if_splits)

lemma refresh_grant_success:
  assumes "handleRefreshTokenGrant cfg sign e s req = (TokenResponse r, s')"
  shows "\<exists>t d.
           refresh_token req = Some t \<and> t \<noteq> [] \<and> refreshTokens s t = Some d
         \<and> client_id req = Some (rt_clientId d) \<and> \<not> rt_expiresAt d < now_check e
         \<and> r = \<lparr>access_token = fst (issueAccessToken cfg sign (rt_privyUserId d)
                     (rt_privyToken d) (rt_scopes d) (rt_clientId d)
                     (audience_of cfg (resource req))),
                 res_refresh_token = generated e, token_type = ''Bearer'',
                 expires_in = 3600, scope = join '' '' (rt_scopes d)\<rparr>
         \<and> authorizationCodes s' = authorizationCodes s
         \<and> tokens s' = (tokens s)(access_token r \<mapsto>
               \<lparr>td_clientId = rt_clientId d, td_privyUserId = rt_privyUserId d,
                td_privyToken = rt_privyToken d, td_scopes = rt_scopes d,
                td_expiresAt = now_access e + 3600 * 1000\<rparr>)
         \<and> refreshTokens s' = (refreshTokens s)(t := None, generated e \<mapsto>
               \<lparr>rt_clientId = rt_clientId d, rt_privyUserId = rt_privyUserId d,
                rt_privyToken = rt_privyToken d, rt_scopes = rt_scopes d,
                rt_expiresAt = now_refresh e + REFRESH_TOKEN_TTL_MS\<rparr>)"
  using assms
  by (auto simp add: refresh_grant_defs split: option.splits if_splits)

lemma token_endpoint_success:
  assumes "token_endpoint cfg sign e s req = (TokenResponse r, s')"
  shows "(grant_type req = Some ''authorization_code''
            \<and> handleAuthorizationCodeGrant cfg sign e s req = (TokenResponse r, s'))
       \<or> (grant_type req = Some ''refresh_token''
            \<and> handleRefreshTokenGrant cfg sign e s req = (TokenResponse r, s'))"
  using assms by (auto simp add: token_endpoint_def split: if_splits)

text \<open>The token endpoint never adds or changes an authorization code.\<close>

lemma code_grant_keeps_codes:
  "authorizationCodes (snd (handleAuthorizationCodeGrant cfg sign e s req)) k = Some a
     \<Longrightarrow> authorizationCodes s k = Some a"
  by (auto simp add: code_grant_defs split: option.splits if_splits)

lemma refresh_grant_keeps_codes:
  "authorizationCodes (snd (handleRefreshTokenGrant cfg sign e s req)) = authorizationCodes s"
  by (auto simp add: refresh_grant_defs split: option.splits if_splits)

lemma token_endpoint_keeps_codes:
  "authorizationCodes (snd (token_endpoint cfg sign e s req)) k = Some a
     \<Longrightarrow> authorizationCodes s k = Some a"
  by (auto simp add: token_endpoint_def refresh_grant_keeps_codes
      dest: code_grant_keeps_codes split: if_splits)

lemma run_requests_keeps_codes:
  "authorizationCodes s k = None \<Longrightarrow> authorizationCodes (run_requests cfg sign s rs) k = None"
proof (induction rs arbitrary: s)
  case Nil
  then show ?case by simp
next
  case (Cons x rs)
  obtain e req where x: "x = (e, req)" by (cases x)
  have "authorizationCodes (snd (token_endpoint cfg sign e s req)) k = None"
    using Cons.prems token_endpoint_keeps_codes [of cfg sign e s req k]
    by (cases "authorizationCodes (snd (token_endpoint cfg sign e s req)) k") auto
  then show ?case using Cons.IH x by simp
qed

lemma code_grant_absent:
  assumes "authorizationCodes s c = None" and "code req = Some c" and "c \<noteq> []"
  shows "handleAuthorizationCodeGrant cfg sign e s req =
           (if falsy (code_verifier req) then invalid_request_code
            else ErrorResponse 400 ''invalid_grant'' ''Invalid or expired authorization code'', s)"
  using assms
  by (auto simp add: code_grant_defs falsy_def split: option.splits)


text \<open>The sample redemption and the sample rotation are answered with tokens.\<close>

lemma redeem0_succeeds:
  "fst (token_endpoint cfg0 sign0 env0 store0 redeem0) = TokenResponse response0"
  by (simp add: token_endpoint_def code_grant_defs sample_defs)

lemma rotate0_succeeds:
  "fst (token_endpoint cfg0 sign0 env1 store0 rotate0) = TokenResponse response1"
  by (simp add: token_endpoint_def refresh_grant_defs sample_defs response1_def)

section \<open>Single use of an authorization code\<close>

text \<open>
  Claim C1. Once a request with \<^verbatim>\<open>grant_type = authorization_code\<close> has redeemed the code
  \<open>c\<close> and has been answered with tokens, a later request that presents \<open>c\<close> again is
  never answered with tokens, whatever requests to the token endpoint come between the
  two. When it carries a \<^verbatim>\<open>client_id\<close> and a \<^verbatim>\<open>code_verifier\<close>, as a redemption does, the
  answer is the 400 error \<^verbatim>\<open>invalid_grant\<close>.
\<close>

theorem code_single_use:
  assumes "token_endpoint cfg sign e1 s req1 = (TokenResponse r1, s1)"
      and "grant_type req1 = Some ''authorization_code''" and "code req1 = Some c"
      and "grant_type req2 = Some ''authorization_code''" and "code req2 = Some c"
  shows "(\<forall>r2. fst (token_endpoint cfg sign e2 (run_requests cfg sign s1 between) req2)
                 \<noteq> TokenResponse r2)
       \<and> (\<not> falsy (client_id req2) \<and> \<not> falsy (code_verifier req2) \<longrightarrow>
            fst (token_endpoint cfg sign e2 (run_requests cfg sign s1 between) req2)
              = ErrorResponse 400 ''invalid_grant'' ''Invalid or expired authorization code'')"
proof -
  from assms(1,2) have "handleAuthorizationCodeGrant cfg sign e1 s req1 = (TokenResponse r1, s1)"
    using token_endpoint_success by fastforce
  from code_grant_success [OF this] assms(3)
  have gone: "authorizationCodes s1 c = None" and c: "c \<noteq> []" by auto
  let ?s2 = "run_requests cfg sign s1 between"
  have "authorizationCodes ?s2 c = None"
    using gone by (rule run_requests_keeps_codes)
  then have "handleAuthorizationCodeGrant cfg sign e2 ?s2 req2 =
           (if falsy (code_verifier req2) then invalid_request_code
            else ErrorResponse 400 ''invalid_grant'' ''Invalid or expired authorization code'', ?s2)"
    using assms(5) c by (rule code_grant_absent)
  then show ?thesis
    using assms(4) by (simp add: token_endpoint_def invalid_request_code_def)
qed

theorem code_single_use_witness:
  "fst (token_endpoint cfg0 sign0 env0 store0 redeem0) = TokenResponse response0
   \<and> \<not> falsy (client_id redeem0) \<and> \<not> falsy (code_verifier redeem0)
   \<and> fst (token_endpoint cfg0 sign0 env1
            (run_requests cfg0 sign0 (snd (token_endpoint cfg0 sign0 env0 store0 redeem0))
               [(env1, rotate0)]) redeem0)
       = ErrorResponse 400 ''invalid_grant'' ''Invalid or expired authorization code''"
proof -
  have first: "token_endpoint cfg0 sign0 env0 store0 redeem0
                 = (TokenResponse response0, snd (token_endpoint cfg0 sign0 env0 store0 redeem0))"
    using redeem0_succeeds by (simp add: prod_eq_iff)
  have g: "grant_type redeem0 = Some ''authorization_code''" and c: "code redeem0 = Some ''code-1''"
    and p: "\<not> falsy (client_id redeem0)" "\<not> falsy (code_verifier redeem0)"
    by (simp_all add: sample_defs)
  from code_single_use [OF first g c g c, of env1 "[(env1, rotate0)]"] p redeem0_succeeds
  show ?thesis by simp
qed

section \<open>The used flag and the deletion of a redeemed code\<close>

text \<open>
  Claim C2 as it is stated asks for a write of \<^verbatim>\<open>used = true\<close> on every successful
  redemption. In the sample redemption, which is answered with tokens, the flag of the
  code is \<open>True\<close> in none of the stores the handler starts from or writes.
\<close>

theorem used_flag_counterexample:
  "fst (token_endpoint cfg0 sign0 env0 store0 redeem0) = TokenResponse response0
   \<and> used_flags ''code-1''
        (store0 # snd (handleAuthorizationCodeGrant_writes cfg0 sign0 env0 store0 redeem0))
       = [Some False, None, None, None]
   \<and> Some True \<notin> set (used_flags ''code-1''
        (store0 # snd (handleAuthorizationCodeGrant_writes cfg0 sign0 env0 store0 redeem0)))"
  by (simp add: token_endpoint_def code_grant_defs sample_defs used_flags_def)

text \<open>
  Claim C2, amended. On every successful redemption the code that is redeemed is in the
  store with its \<^verbatim>\<open>used\<close> flag false, the first write of the handler deletes it, and it
  is absent from every store the handler writes and from the store it leaves; the flag
  is never written, and no other authorization code is touched.
\<close>

theorem redemption_deletes_code:
  assumes "token_endpoint cfg sign e s req = (TokenResponse r, s')"
      and "grant_type req = Some ''authorization_code''"
  shows "\<exists>c a. code req = Some c \<and> authorizationCodes s c = Some a \<and> \<not> ac_used a
           \<and> used_flags c (s # snd (handleAuthorizationCodeGrant_writes cfg sign e s req))
                = [Some False, None, None, None]
           \<and> s' = last (snd (handleAuthorizationCodeGrant_writes cfg sign e s req))
           \<and> authorizationCodes s' c = None
           \<and> (\<forall>k. k \<noteq> c \<longrightarrow> authorizationCodes s' k = authorizationCodes s k)"
proof -
  from assms have h: "handleAuthorizationCodeGrant cfg sign e s req = (TokenResponse r, s')"
    using token_endpoint_success by fastforce
  obtain res ws where w: "handleAuthorizationCodeGrant_writes cfg sign e s req = (res, ws)"
    by (cases "handleAuthorizationCodeGrant_writes cfg sign e s req")
  with h have res: "res = TokenResponse r" and s': "s' = last (s # ws)"
    by (simp_all add: handleAuthorizationCodeGrant_def)
  from code_grant_writes_success [OF w [unfolded res]]
  obtain c a s2 s3 where
    c: "code req = Some c" "authorizationCodes s c = Some a" "\<not> ac_used a"
    and ws: "ws = [deleteAuthorizationCode s c, s2, s3]"
    and s2: "authorizationCodes s2 = authorizationCodes (deleteAuthorizationCode s c)"
    and s3: "authorizationCodes s3 = authorizationCodes (deleteAuthorizationCode s c)"
    by blast
  have "used_flags c (s # ws) = [Some False, None, None, None]"
    using c ws s2 s3 by (simp add: used_flags_def deleteAuthorizationCode_def)
  moreover have "s' = last ws" using s' ws by simp
  moreover have "authorizationCodes s' = (authorizationCodes s)(c := None)"
    using s' ws s3 by (simp add: deleteAuthorizationCode_def)
  ultimately show ?thesis using c w by auto
qed

theorem redemption_deletes_code_witness:
  "code redeem0 = Some ''code-1'' \<and> authorizationCodes store0 ''code-1'' = Some code0
   \<and> \<not> ac_used code0
   \<and> used_flags ''code-1''
        (store0 # snd (handleAuthorizationCodeGrant_writes cfg0 sign0 env0 store0 redeem0))
       = [Some False, None, None, None]
   \<and> authorizationCodes (snd (token_endpoint cfg0 sign0 env0 store0 redeem0)) ''code-1'' = None"
proof -
  have first: "token_endpoint cfg0 sign0 env0 store0 redeem0
                 = (TokenResponse response0, snd (token_endpoint cfg0 sign0 env0 store0 redeem0))"
    using redeem0_succeeds by (simp add: prod_eq_iff)
  have g: "grant_type redeem0 = Some ''authorization_code''"
    by (simp add: sample_defs)
  from redemption_deletes_code [OF first g]
  show ?thesis by (auto simp add: sample_defs)
qed

section \<open>Expired authorization codes\<close>

text \<open>
  The token endpoint keeps the stores in which no code is marked used.
\<close>

lemma token_endpoint_keeps_unused:
  "all_unused s \<Longrightarrow> all_unused (snd (token_endpoint cfg sign e s req))"
  unfolding all_unused_def by (blast dest: token_endpoint_keeps_codes)

lemma run_requests_keeps_unused:
  "all_unused s \<Longrightarrow> all_unused (run_requests cfg sign s rs)"
proof (induction rs arbitrary: s)
  case Nil
  then show ?case by simp
next
  case (Cons x rs)
  obtain e req where x: "x = (e, req)" by (cases x)
  from Cons.prems have "all_unused (snd (token_endpoint cfg sign e s req))"
    by (rule token_endpoint_keeps_unused)
  then show ?case using Cons.IH x by simp
qed

text \<open>
  Claim C3. In a store that the token endpoint has reached from one in which no code is
  marked used, a redemption (a request with \<^verbatim>\<open>grant_type = authorization_code\<close>, a
  \<^verbatim>\<open>client_id\<close>, a \<^verbatim>\<open>code_verifier\<close> and a code that is in the store) at a time past the
  \<^verbatim>\<open>expiresAt\<close> of the code is answered with the 400 error \<^verbatim>\<open>invalid_grant\<close> of an expired
  code; the code is deleted from the store, no other code is touched, and no access or
  refresh token is stored.
\<close>

theorem expired_code_rejected:
  assumes "all_unused s0" and "s = run_requests cfg sign s0 earlier"
      and "grant_type req = Some ''authorization_code''"
      and "\<not> falsy (client_id req)" and "\<not> falsy (code_verifier req)"
      and "code req = Some c" and "c \<noteq> []"
      and "authorizationCodes s c = Some a" and "ac_expiresAt a < now_check e"
      and "token_endpoint cfg sign e s req = (res, s')"
  shows "res = ErrorResponse 400 ''invalid_grant'' ''Authorization code has expired''
       \<and> authorizationCodes s' c = None
       \<and> (\<forall>k. k \<noteq> c \<longrightarrow> authorizationCodes s' k = authorizationCodes s k)
       \<and> tokens s' = tokens s \<and> refreshTokens s' = refreshTokens s"
proof -
  have "all_unused s"
    using assms(1,2) by (simp add: run_requests_keeps_unused)
  then have "\<not> ac_used a"
    using assms(8) by (simp add: all_unused_def)
  then show ?thesis
    using assms(3-10)
    by (auto simp add: token_endpoint_def code_grant_defs falsy_def split: option.splits)
qed

theorem expired_code_rejected_witness:
  "all_unused store0
   \<and> authorizationCodes (run_requests cfg0 sign0 store0 [(env1, rotate0)]) ''code-1'' = Some code0
   \<and> ac_expiresAt code0 < now_check late
   \<and> fst (token_endpoint cfg0 sign0 late
            (run_requests cfg0 sign0 store0 [(env1, rotate0)]) redeem0)
       = ErrorResponse 400 ''invalid_grant'' ''Authorization code has expired''
   \<and> authorizationCodes (snd (token_endpoint cfg0 sign0 late
            (run_requests cfg0 sign0 store0 [(env1, rotate0)]) redeem0)) ''code-1'' = None
   \<and> tokens (snd (token_endpoint cfg0 sign0 late
            (run_requests cfg0 sign0 store0 [(env1, rotate0)]) redeem0))
       = tokens (run_requests cfg0 sign0 store0 [(env1, rotate0)])"
proof -
  have u: "all_unused store0"
    by (simp add: all_unused_def store0_def code0_def)
  have h: "grant_type redeem0 = Some ''authorization_code''"
    "\<not> falsy (client_id redeem0)" "\<not> falsy (code_verifier redeem0)"
    "code redeem0 = Some ''code-1''" "''code-1'' \<noteq> []"
    by (simp_all add: sample_defs)
  have a: "authorizationCodes (run_requests cfg0 sign0 store0 [(env1, rotate0)]) ''code-1''
             = Some code0"
    by (simp add: token_endpoint_def refresh_grant_defs sample_defs)
  have x: "ac_expiresAt code0 < now_check late"
    by (simp add: sample_defs)
  from expired_code_rejected [OF u refl h a x surjective_pairing] u a x
  show ?thesis by simp
qed

section \<open>Rotation of refresh tokens\<close>



text \<open>
  A refresh token that is in the store after a request was there before, unchanged, or
  is the one generated during the request.
\<close>

lemma code_grant_refresh_keys:
  "refreshTokens (snd (handleAuthorizationCodeGrant cfg sign e s req)) k = Some d
     \<Longrightarrow> k = generated e \<or> refreshTokens s k = Some d"
  by (auto simp add: code_grant_defs split: option.splits if_splits)

lemma refresh_grant_refresh_keys:
  "refreshTokens (snd (handleRefreshTokenGrant cfg sign e s req)) k = Some d
     \<Longrightarrow> k = generated e \<or> refreshTokens s k = Some d"
  by (auto simp add: refresh_grant_defs split: option.splits if_splits)

lemma token_endpoint_refresh_keys:
  "refreshTokens (snd (token_endpoint cfg sign e s req)) k = Some d
     \<Longrightarrow> k = generated e \<or> refreshTokens s k = Some d"
  by (auto simp add: token_endpoint_def
      dest: code_grant_refresh_keys refresh_grant_refresh_keys split: if_splits)

text \<open>What one request does to the server: the handler runs with a new token.\<close>

lemma serve_parts:
  assumes "serve cfg sign e srv req = (res, srv')"
  shows "token_endpoint cfg sign (e\<lparr>generated := new_token (created srv) (generated e)\<rparr>)
           (srv_store srv) req = (res, srv_store srv')"
    and "created srv' = new_token (created srv) (generated e) # created srv"
  using assms by (auto simp add: serve_def Let_def split: prod.splits)

lemma serve_keeps_created_ok:
  assumes "created_ok srv"
  shows "created_ok (snd (serve cfg sign e srv req))"
proof -
  obtain res srv' where s: "serve cfg sign e srv req = (res, srv')"
    by (cases "serve cfg sign e srv req")
  let ?g = "new_token (created srv) (generated e)"
  have "k \<in> set (created srv')" if "refreshTokens (srv_store srv') k = Some d" for k d
  proof -
    from that serve_parts(1) [OF s]
    have "refreshTokens (snd (token_endpoint cfg sign (e\<lparr>generated := ?g\<rparr>)
            (srv_store srv) req)) k = Some d"
      by simp
    then have "k = ?g \<or> refreshTokens (srv_store srv) k = Some d"
      using token_endpoint_refresh_keys by fastforce
    then show ?thesis
      using assms serve_parts(2) [OF s] by (auto simp add: created_ok_def)
  qed
  then show ?thesis
    using s by (auto simp add: created_ok_def)
qed

lemma run_server_keeps_created_ok:
  "created_ok srv \<Longrightarrow> created_ok (run_server cfg sign srv rs)"
proof (induction rs arbitrary: srv)
  case Nil
  then show ?case by simp
next
  case (Cons x rs)
  obtain e req where x: "x = (e, req)" by (cases x)
  from Cons.prems have "created_ok (snd (serve cfg sign e srv req))"
    by (rule serve_keeps_created_ok)
  then show ?case using Cons.IH x by simp
qed

text \<open>
  A server that starts without refresh tokens has created all it will ever hold.
\<close>

lemma started_empty_created_ok:
  assumes "refreshTokens (srv_store srv0) = Map.empty"
  shows "created_ok (run_server cfg sign srv0 rs)"
  using assms by (intro run_server_keeps_created_ok) (simp add: created_ok_def)





section \<open>The identity token is carried forward\<close>

text \<open>
  Claim C5. After a successful grant of either type, the access-token record stored under
  the access token of the answer and the refresh-token record stored under the refresh
  token of the answer both hold the identity token of the consumed authorization code,
  or of the consumed refresh token, unchanged. Every other record of the two
  collections that is in the store afterwards was there before, unchanged.
\<close>

theorem identity_token_carried_forward:
  assumes "token_endpoint cfg sign e s req = (TokenResponse r, s')"
  shows "(\<exists>p. ((\<exists>c a. grant_type req = Some ''authorization_code'' \<and> code req = Some c
                     \<and> authorizationCodes s c = Some a \<and> p = ac_privyToken a)
              \<or> (\<exists>t d. grant_type req = Some ''refresh_token'' \<and> refresh_token req = Some t
                     \<and> refreshTokens s t = Some d \<and> p = rt_privyToken d))
            \<and> (\<exists>d. tokens s' (access_token r) = Some d \<and> td_privyToken d = p)
            \<and> (\<exists>d. refreshTokens s' (res_refresh_token r) = Some d \<and> rt_privyToken d = p))
       \<and> (\<forall>k d. k \<noteq> access_token r \<and> tokens s' k = Some d \<longrightarrow> tokens s k = Some d)
       \<and> (\<forall>k d. k \<noteq> res_refresh_token r \<and> refreshTokens s' k = Some d
                \<longrightarrow> refreshTokens s k = Some d)"
  using token_endpoint_success [OF assms]
proof
  assume "grant_type req = Some ''authorization_code''
            \<and> handleAuthorizationCodeGrant cfg sign e s req = (TokenResponse r, s')"
  then show ?thesis
    using code_grant_success [of cfg sign e s req r s']
    by (auto split: if_splits)
next
  assume "grant_type req = Some ''refresh_token''
            \<and> handleRefreshTokenGrant cfg sign e s req = (TokenResponse r, s')"
  then show ?thesis
    using refresh_grant_success [of cfg sign e s req r s']
    by (auto split: if_splits)
qed

theorem identity_token_carried_forward_witness:
  "fst (token_endpoint cfg0 sign0 env0 store0 redeem0) = TokenResponse response0
   \<and> ac_privyToken code0 = ''privy-token-1''
   \<and> (\<exists>d. tokens (snd (token_endpoint cfg0 sign0 env0 store0 redeem0)) (access_token response0)
             = Some d \<and> td_privyToken d = ''privy-token-1'')
   \<and> (\<exists>d. refreshTokens (snd (token_endpoint cfg0 sign0 env0 store0 redeem0)) ''refresh-1''
             = Some d \<and> rt_privyToken d = ''privy-token-1'')
   \<and> fst (token_endpoint cfg0 sign0 env1 store0 rotate0) = TokenResponse response1
   \<and> rt_privyToken refresh0 = ''privy-token-1''
   \<and> (\<exists>d. tokens (snd (token_endpoint cfg0 sign0 env1 store0 rotate0)) (access_token response1)
             = Some d \<and> td_privyToken d = ''privy-token-1'')
   \<and> (\<exists>d. refreshTokens (snd (token_endpoint cfg0 sign0 env1 store0 rotate0)) ''refresh-2''
             = Some d \<and> rt_privyToken d = ''privy-token-1'')"
proof -
  have first: "token_endpoint cfg0 sign0 env0 store0 redeem0
                 = (TokenResponse response0, snd (token_endpoint cfg0 sign0 env0 store0 redeem0))"
    using redeem0_succeeds by (simp add: prod_eq_iff)
  have second: "token_endpoint cfg0 sign0 env1 store0 rotate0
                 = (TokenResponse response1, snd (token_endpoint cfg0 sign0 env1 store0 rotate0))"
    using rotate0_succeeds by (simp add: prod_eq_iff)
  have c: "code redeem0 = Some ''code-1''" "authorizationCodes store0 ''code-1'' = Some code0"
    "grant_type redeem0 \<noteq> Some ''refresh_token''"
    "refresh_token rotate0 = Some ''refresh-0''" "refreshTokens store0 ''refresh-0'' = Some refresh0"
    "grant_type rotate0 \<noteq> Some ''authorization_code''"
    "ac_privyToken code0 = ''privy-token-1''" "rt_privyToken refresh0 = ''privy-token-1''"
    "res_refresh_token response0 = ''refresh-1''" "res_refresh_token response1 = ''refresh-2''"
    by (simp_all add: sample_defs response1_def)
  from identity_token_carried_forward [OF first] identity_token_carried_forward [OF second]
    redeem0_succeeds rotate0_succeeds c
  show ?thesis by auto
qed

section \<open>The identity bridge answers from the access-token collection\<close>

text \<open>
  Claim C6. For a caller whom the bearer middleware has accepted with the access token
  \<open>t\<close>: if \<open>t\<close> is a key of the access-token collection, the answer carries the stored
  identity token as it is, with the expiry, the subject and the scopes of the record; if
  \<open>t\<close> is not a key, the answer is the 404 error \<^verbatim>\<open>token_not_found\<close>, which carries no
  identity token.
\<close>

theorem privy_access_token_lookup:
  "t \<noteq> [] \<Longrightarrow>
   (\<forall>d. tokens s t = Some d \<longrightarrow>
      privy_access_token s (Some t) =
        ExchangeOk \<lparr>privyAccessToken = td_privyToken d, expiresAt = td_expiresAt d,
                    issuedAt = None, userId = td_privyUserId d, ex_scope = td_scopes d\<rparr>)
   \<and> (tokens s t = None \<longrightarrow>
      privy_access_token s (Some t) = ExchangeError 404 ''token_not_found'')"
  by (simp add: privy_access_token_def getToken_def)

theorem privy_access_token_lookup_witness:
  "''jwt-0'' \<noteq> [] \<and> tokens store0 ''jwt-0'' = Some token0
   \<and> privy_access_token store0 (Some ''jwt-0'') =
        ExchangeOk \<lparr>privyAccessToken = ''privy-token-1'', expiresAt = 1700003600000,
                    issuedAt = None, userId = ''did:privy:user-1'',
                    ex_scope = [''read'', ''privy:token:exchange'']\<rparr>
   \<and> ''jwt-9'' \<noteq> [] \<and> tokens store0 ''jwt-9'' = None
   \<and> privy_access_token store0 (Some ''jwt-9'') = ExchangeError 404 ''token_not_found''"
  using privy_access_token_lookup [of "''jwt-0''" store0]
        privy_access_token_lookup [of "''jwt-9''" store0]
  by (simp add: store0_def token0_def)

section \<open>The PKCE check\<close>

text \<open>
  Claim C7 as it is stated has the check fail for every two different verifiers. The
  verifiers that consist of the single code unit D800 and of the single code unit D801
  are different strings with the same UTF-8 encoding, the three bytes of U+FFFD: the
  check of the first against the challenge of the second holds, and a redemption that
  presents the first for a code with the challenge of the second is answered with tokens.
\<close>

theorem pkce_surrogate_counterexample:
  "[0xD800] \<noteq> ([0xD801] :: jsstring)
   \<and> validatePKCE [0xD800] (generateCodeChallenge [0xD801])
   \<and> code_verifier redeem_surrogate = Some [0xD800]
   \<and> ac_codeChallenge code_surrogate = generateCodeChallenge [0xD801]
   \<and> authorizationCodes store_surrogate ''code-1'' = Some code_surrogate
   \<and> fst (token_endpoint cfg0 sign0 env0 store_surrogate redeem_surrogate)
       = TokenResponse response0"
proof -
  have v: "validatePKCE [0xD800] (generateCodeChallenge [0xD801])"
    unfolding validatePKCE_def generateCodeChallenge_def lone_surrogates by (rule refl)
  then have "fst (token_endpoint cfg0 sign0 env0 store_surrogate redeem_surrogate)
       = TokenResponse response0"
    by (simp add: token_endpoint_def code_grant_defs sample_defs store_surrogate_def
          code_surrogate_def redeem_surrogate_def)
  with v show ?thesis
    by (simp add: store_surrogate_def code_surrogate_def redeem_surrogate_def)
qed

text \<open>
  Claim C7, amended. For every verifier \<open>v\<close> the check of \<open>v\<close> against the challenge of
  \<open>v\<close> holds. The check of \<open>v\<close> against the challenge of \<open>v'\<close> holds exactly when the
  UTF-8 encodings of the two have the same SHA-256 digest, so it fails for two verifiers
  whose digests differ. A redemption whose verifier fails the check against the
  challenge of its code is answered with the 400 error \<^verbatim>\<open>invalid_grant\<close> and stores no
  token; where every earlier check passes, the error is the one of the PKCE check and the
  store is left as it was.
\<close>

theorem pkce_validation:
  "validatePKCE v (generateCodeChallenge v)
   \<and> (validatePKCE v (generateCodeChallenge v') \<longleftrightarrow> sha256 (utf8 v) = sha256 (utf8 v'))
   \<and> (grant_type req = Some ''authorization_code'' \<and> \<not> falsy (client_id req)
        \<and> code req = Some c \<and> c \<noteq> [] \<and> code_verifier req = Some w \<and> w \<noteq> []
        \<and> authorizationCodes s c = Some a \<and> \<not> validatePKCE w (ac_codeChallenge a) \<longrightarrow>
          (\<exists>d. fst (token_endpoint cfg sign e s req) = ErrorResponse 400 ''invalid_grant'' d)
        \<and> tokens (snd (token_endpoint cfg sign e s req)) = tokens s
        \<and> refreshTokens (snd (token_endpoint cfg sign e s req)) = refreshTokens s
        \<and> (\<not> ac_used a \<and> \<not> ac_expiresAt a < now_check e
             \<and> client_id req = Some (ac_clientId a)
             \<and> redirect_uri req \<in> {None, Some [], Some (ac_redirectUri a)} \<longrightarrow>
            token_endpoint cfg sign e s req =
              (ErrorResponse 400 ''invalid_grant''
                 ''Invalid code_verifier (PKCE validation failed)'', s)))"
proof -
  have "validatePKCE v (generateCodeChallenge v') \<longleftrightarrow> sha256 (utf8 v) = sha256 (utf8 v')"
    by (auto simp add: validatePKCE_def generateCodeChallenge_def dest: base64UrlEncode_inj)
  moreover have "validatePKCE v (generateCodeChallenge v)"
    by (simp add: validatePKCE_def generateCodeChallenge_def)
  moreover have "grant_type req = Some ''authorization_code'' \<and> \<not> falsy (client_id req)
        \<and> code req = Some c \<and> c \<noteq> [] \<and> code_verifier req = Some w \<and> w \<noteq> []
        \<and> authorizationCodes s c = Some a \<and> \<not> validatePKCE w (ac_codeChallenge a) \<longrightarrow>
          (\<exists>d. fst (token_endpoint cfg sign e s req) = ErrorResponse 400 ''invalid_grant'' d)
        \<and> tokens (snd (token_endpoint cfg sign e s req)) = tokens s
        \<and> refreshTokens (snd (token_endpoint cfg sign e s req)) = refreshTokens s
        \<and> (\<not> ac_used a \<and> \<not> ac_expiresAt a < now_check e
             \<and> client_id req = Some (ac_clientId a)
             \<and> redirect_uri req \<in> {None, Some [], Some (ac_redirectUri a)} \<longrightarrow>
            token_endpoint cfg sign e s req =
              (ErrorResponse 400 ''invalid_grant''
                 ''Invalid code_verifier (PKCE validation failed)'', s))"
    by (auto simp add: token_endpoint_def code_grant_defs falsy_def split: option.splits)
  ultimately show ?thesis by blast
qed

theorem pkce_validation_witness:
  "validatePKCE (ascii ''abc'') (generateCodeChallenge (ascii ''abc''))
   \<and> grant_type redeem_abc = Some ''authorization_code'' \<and> \<not> falsy (client_id redeem_abc)
   \<and> code redeem_abc = Some ''code-1'' \<and> code_verifier redeem_abc = Some (ascii ''abc'')
   \<and> authorizationCodes store_rfc ''code-1'' = Some code_rfc
   \<and> \<not> validatePKCE (ascii ''abc'') (ac_codeChallenge code_rfc)
   \<and> token_endpoint cfg0 sign0 env0 store_rfc redeem_abc =
        (ErrorResponse 400 ''invalid_grant'' ''Invalid code_verifier (PKCE validation failed)'',
         store_rfc)"
proof -
  have h: "grant_type redeem_abc = Some ''authorization_code''" "\<not> falsy (client_id redeem_abc)"
    "code redeem_abc = Some ''code-1''" "''code-1'' \<noteq> []"
    "code_verifier redeem_abc = Some (ascii ''abc'')" "ascii ''abc'' \<noteq> []"
    "authorizationCodes store_rfc ''code-1'' = Some code_rfc"
    by (simp_all add: redeem_abc_def store_rfc_def sample_defs)
  have bad: "\<not> validatePKCE (ascii ''abc'') (ac_codeChallenge code_rfc)"
    using challenge_abc by (simp add: validatePKCE_def generateCodeChallenge_def code_rfc_def)
  have ok: "\<not> ac_used code_rfc" "\<not> ac_expiresAt code_rfc < now_check env0"
    "client_id redeem_abc = Some (ac_clientId code_rfc)"
    "redirect_uri redeem_abc \<in> {None, Some [], Some (ac_redirectUri code_rfc)}"
    by (simp_all add: redeem_abc_def code_rfc_def sample_defs)
  from pkce_validation [of "ascii ''abc''" "ascii ''abc''" redeem_abc "''code-1''"
      "ascii ''abc''" store_rfc code_rfc cfg0 sign0 env0] h bad ok
  show ?thesis by auto
qed

section \<open>The shape of a successful answer\<close>

text \<open>
  Claim C8. Every answer of the token endpoint that carries tokens, for either grant
  type, has \<^verbatim>\<open>token_type\<close> \<^verbatim>\<open>Bearer\<close> and \<^verbatim>\<open>expires_in\<close> 3600, beside its access token, its
  refresh token and its scope. The refresh-token record stored under the refresh token
  of the answer expires 30 days (in milliseconds) after the clock reading of its
  creation, the access-token record one hour after its own. \<^verbatim>\<open>scope\<close> is the scope list
  of the consumed code or refresh token, which is also that of both new records, joined
  by single spaces: empty for the empty list, and otherwise the first scope followed by
  every further scope with one space before it.
\<close>

theorem token_response_shape:
  assumes "token_endpoint cfg sign e s req = (TokenResponse r, s')"
  shows "token_type r = ''Bearer'' \<and> expires_in r = 3600
       \<and> (\<exists>scopes.
            scope r = (case scopes of [] \<Rightarrow> []
                       | x # ys \<Rightarrow> x @ concat (map (\<lambda>y. CHR '' '' # y) ys))
          \<and> scope r = join '' '' scopes
          \<and> (\<exists>d. refreshTokens s' (res_refresh_token r) = Some d
                 \<and> rt_expiresAt d = now_refresh e + 30 * 24 * 60 * 60 * 1000
                 \<and> rt_scopes d = scopes)
          \<and> (\<exists>d. tokens s' (access_token r) = Some d
                 \<and> td_expiresAt d = now_access e + 3600 * 1000
                 \<and> td_scopes d = scopes)
          \<and> ((\<exists>c a. grant_type req = Some ''authorization_code'' \<and> code req = Some c
                     \<and> authorizationCodes s c = Some a \<and> ac_scopes a = scopes)
             \<or> (\<exists>t d. grant_type req = Some ''refresh_token'' \<and> refresh_token req = Some t
                     \<and> refreshTokens s t = Some d \<and> rt_scopes d = scopes)))"
  using token_endpoint_success [OF assms]
proof
  assume "grant_type req = Some ''authorization_code''
            \<and> handleAuthorizationCodeGrant cfg sign e s req = (TokenResponse r, s')"
  with code_grant_success [of cfg sign e s req r s']
  obtain c a where a: "grant_type req = Some ''authorization_code''" "code req = Some c"
      "authorizationCodes s c = Some a"
    and r: "token_type r = ''Bearer''" "expires_in r = 3600"
      "scope r = join '' '' (ac_scopes a)"
    and rt: "\<exists>d. refreshTokens s' (res_refresh_token r) = Some d
                 \<and> rt_expiresAt d = now_refresh e + 30 * 24 * 60 * 60 * 1000
                 \<and> rt_scopes d = ac_scopes a"
    and td: "\<exists>d. tokens s' (access_token r) = Some d
                 \<and> td_expiresAt d = now_access e + 3600 * 1000
                 \<and> td_scopes d = ac_scopes a"
    by (auto simp add: REFRESH_TOKEN_TTL_MS_def)
  have "scope r = (case ac_scopes a of [] \<Rightarrow> []
                   | x # ys \<Rightarrow> x @ concat (map (\<lambda>y. CHR '' '' # y) ys))"
    using r(3) by (simp add: join_single_spaces)
  with a r rt td show ?thesis by blast
next
  assume "grant_type req = Some ''refresh_token''
            \<and> handleRefreshTokenGrant cfg sign e s req = (TokenResponse r, s')"
  with refresh_grant_success [of cfg sign e s req r s']
  obtain t old where a: "grant_type req = Some ''refresh_token''" "refresh_token req = Some t"
      "refreshTokens s t = Some old"
    and r: "token_type r = ''Bearer''" "expires_in r = 3600"
      "scope r = join '' '' (rt_scopes old)"
    and rt: "\<exists>d. refreshTokens s' (res_refresh_token r) = Some d
                 \<and> rt_expiresAt d = now_refresh e + 30 * 24 * 60 * 60 * 1000
                 \<and> rt_scopes d = rt_scopes old"
    and td: "\<exists>d. tokens s' (access_token r) = Some d
                 \<and> td_expiresAt d = now_access e + 3600 * 1000
                 \<and> td_scopes d = rt_scopes old"
    by (auto simp add: REFRESH_TOKEN_TTL_MS_def)
  have "scope r = (case rt_scopes old of [] \<Rightarrow> []
                   | x # ys \<Rightarrow> x @ concat (map (\<lambda>y. CHR '' '' # y) ys))"
    using r(3) by (simp add: join_single_spaces)
  with a r rt td show ?thesis by blast
qed

theorem token_response_shape_witness:
  "fst (token_endpoint cfg0 sign0 env0 store0 redeem0) = TokenResponse response0
   \<and> token_type response0 = ''Bearer'' \<and> expires_in response0 = 3600
   \<and> ac_scopes code0 = [''read'', ''privy:token:exchange'']
   \<and> scope response0 = ''read privy:token:exchange''
   \<and> (\<exists>d. refreshTokens (snd (token_endpoint cfg0 sign0 env0 store0 redeem0)) ''refresh-1''
             = Some d
          \<and> rt_expiresAt d = now_refresh env0 + 30 * 24 * 60 * 60 * 1000)
   \<and> fst (token_endpoint cfg0 sign0 env1 store0 rotate0) = TokenResponse response1
   \<and> token_type response1 = ''Bearer'' \<and> expires_in response1 = 3600
   \<and> rt_scopes refresh0 = [''read'', ''privy:token:exchange'']
   \<and> scope response1 = ''read privy:token:exchange''
   \<and> (\<exists>d. refreshTokens (snd (token_endpoint cfg0 sign0 env1 store0 rotate0)) ''refresh-2''
             = Some d
          \<and> rt_expiresAt d = now_refresh env1 + 30 * 24 * 60 * 60 * 1000)"
proof -
  have first: "token_endpoint cfg0 sign0 env0 store0 redeem0
                 = (TokenResponse response0, snd (token_endpoint cfg0 sign0 env0 store0 redeem0))"
    using redeem0_succeeds by (simp add: prod_eq_iff)
  have second: "token_endpoint cfg0 sign0 env1 store0 rotate0
                 = (TokenResponse response1, snd (token_endpoint cfg0 sign0 env1 store0 rotate0))"
    using rotate0_succeeds by (simp add: prod_eq_iff)
  have l: "ac_scopes code0 = [''read'', ''privy:token:exchange'']"
    "rt_scopes refresh0 = [''read'', ''privy:token:exchange'']"
    by (simp_all add: code0_def refresh0_def)
  from token_response_shape [OF first] token_response_shape [OF second]
    redeem0_succeeds rotate0_succeeds l
  show ?thesis by (auto simp add: response0_def response1_def)
qed

section \<open>Introspection answers\<close>

text \<open>
  Claim C9. For a token that the library verifies with the server's public key, algorithm
  and issuer, the introspection endpoint answers 200 with \<^verbatim>\<open>active: true\<close> and the claims
  \<^verbatim>\<open>sub, scope, client_id, exp, iat, iss, aud\<close> of the token. For a token that the library
  rejects the body is \<^verbatim>\<open>active: false\<close>, as it is for an absent or empty token. The
  status is 200 or 400 on every input, never one of the 5xx.
\<close>

theorem introspect_active_or_inactive:
  "(t \<noteq> [] \<and> verify t (jwt_publicKey cfg)
        \<lparr>vo_algorithms = [jwt_algorithm], vo_issuer = jwt_issuer cfg\<rparr> = Some d \<longrightarrow>
      introspect cfg verify (Some t) =
        (200, Active (jp_sub d) (jp_scope d) (jp_client_id d) (jp_exp d) (jp_iat d)
                (jp_iss d) (jp_aud d)))
   \<and> (verify t (jwt_publicKey cfg)
        \<lparr>vo_algorithms = [jwt_algorithm], vo_issuer = jwt_issuer cfg\<rparr> = None \<longrightarrow>
      snd (introspect cfg verify (Some t)) = Inactive)
   \<and> introspect cfg verify None = (400, Inactive)
   \<and> introspect cfg verify (Some []) = (400, Inactive)
   \<and> fst (introspect cfg verify tok) \<in> {200, 400}"
  by (auto simp add: introspect_def split: option.splits)

theorem introspect_active_or_inactive_witness:
  "''good.jwt'' \<noteq> [] \<and> verify0 ''good.jwt'' (jwt_publicKey cfg0)
        \<lparr>vo_algorithms = [jwt_algorithm], vo_issuer = jwt_issuer cfg0\<rparr> = Some payload0
   \<and> introspect cfg0 verify0 (Some ''good.jwt'') =
        (200, Active (Some ''did:privy:user-1'') (Some ''read privy:token:exchange'')
                (Some ''chatgpt-connector'') (Some 1700003600) (Some 1700000000)
                (Some ''https://mcp.example'') (Some ''https://mcp.example''))
   \<and> verify0 ''not.a.jwt'' (jwt_publicKey cfg0)
        \<lparr>vo_algorithms = [jwt_algorithm], vo_issuer = jwt_issuer cfg0\<rparr> = None
   \<and> snd (introspect cfg0 verify0 (Some ''not.a.jwt'')) = Inactive"
  using introspect_active_or_inactive [of "''good.jwt''" verify0 cfg0 payload0]
        introspect_active_or_inactive [of "''not.a.jwt''" verify0 cfg0]
  by (simp add: verify0_def cfg0_def jwt_issuer_def payload0_def)

section \<open>Parameter errors of the token endpoint\<close>

text \<open>
  Claim C10. A request to the token endpoint without \<^verbatim>\<open>client_id\<close> is answered with
  \<^verbatim>\<open>invalid_request\<close> whatever its \<^verbatim>\<open>grant_type\<close> is, and the store is left as it was. With
  a \<^verbatim>\<open>client_id\<close>, every \<^verbatim>\<open>grant_type\<close> other than \<^verbatim>\<open>authorization_code\<close> and
  \<^verbatim>\<open>refresh_token\<close>, an absent one included, is answered with \<^verbatim>\<open>unsupported_grant_type\<close>.
\<close>

theorem token_endpoint_parameter_errors:
  "(falsy (client_id req) \<longrightarrow>
      token_endpoint cfg sign e s req =
        (ErrorResponse 400 ''invalid_request'' ''Missing required parameter: client_id'', s))
   \<and> (\<not> falsy (client_id req) \<and> grant_type req \<noteq> Some ''authorization_code''
        \<and> grant_type req \<noteq> Some ''refresh_token'' \<longrightarrow>
      (\<exists>d. token_endpoint cfg sign e s req = (ErrorResponse 400 ''unsupported_grant_type'' d, s)))"
  by (simp add: token_endpoint_def)

theorem token_endpoint_parameter_errors_witness:
  "falsy (client_id (no_params\<lparr>grant_type := Some ''authorization_code''\<rparr>))
   \<and> token_endpoint cfg0 sign0 env0 store0 (no_params\<lparr>grant_type := Some ''authorization_code''\<rparr>) =
        (ErrorResponse 400 ''invalid_request'' ''Missing required parameter: client_id'', store0)
   \<and> falsy (client_id (no_params\<lparr>grant_type := Some ''refresh_token''\<rparr>))
   \<and> token_endpoint cfg0 sign0 env0 store0 (no_params\<lparr>grant_type := Some ''refresh_token''\<rparr>) =
        (ErrorResponse 400 ''invalid_request'' ''Missing required parameter: client_id'', store0)
   \<and> \<not> falsy (client_id (no_params\<lparr>client_id := Some ''chatgpt-connector''\<rparr>))
   \<and> grant_type (no_params\<lparr>client_id := Some ''chatgpt-connector''\<rparr>) = None
   \<and> (\<exists>d. token_endpoint cfg0 sign0 env0 store0 (no_params\<lparr>client_id := Some ''chatgpt-connector''\<rparr>) =
        (ErrorResponse 400 ''unsupported_grant_type'' d, store0))"
  using token_endpoint_parameter_errors [of "no_params\<lparr>grant_type := Some ''authorization_code''\<rparr>" cfg0 sign0 env0 store0]
        token_endpoint_parameter_errors [of "no_params\<lparr>grant_type := Some ''refresh_token''\<rparr>" cfg0 sign0 env0 store0]
        token_endpoint_parameter_errors [of "no_params\<lparr>client_id := Some ''chatgpt-connector''\<rparr>" cfg0 sign0 env0 store0]
  by (simp add: falsy_def no_params_def)

end
